theory Spec2Isabelle
  imports Main "HOL-Library.Multiset"
begin

section \<open>ProjectHub: storage layer and HTTP routes\<close>

text \<open>
  A shallow embedding of \<^verbatim>\<open>shared/schema.ts\<close> (the two tables and the zod schemas),
  of the class \<^verbatim>\<open>DatabaseStorage\<close> and of the Express routes with their
  \<^verbatim>\<open>authenticateToken\<close> middleware.

  The database is a value passed through every operation. One request is handled at a
  time (each handler awaits its store calls in sequence), so a handler is a function from
  the database before the request to a response and the database after it.

  The snapshot holds two copies of \<^verbatim>\<open>shared/schema.ts\<close> (in
  \<^verbatim>\<open>src/unnamed/part_000\<close> and \<^verbatim>\<open>src/unnamed/part_001\<close>). Their tables agree;
  their zod schemas differ in the checks on strings (the second adds the non-empty and
  minimum-length checks and the e-mail check at registration). Which one the import
  \<^verbatim>\<open>@shared/schema\<close> resolves to is not part of the sources, so it is a parameter
  too, and every theorem below holds for both.

  What lies outside the repository is a parameter of the model: the libraries
  (jsonwebtoken, bcrypt, zod's e-mail pattern and built-in messages, \<^verbatim>\<open>Date.parse\<close>)
  and what the platform supplies during one request (clock readings, the random UUID of
  an insert, the salt bcrypt draws). Of PostgreSQL the model keeps the constraints that
  the schema declares (primary keys, the unique e-mail, the foreign key of a project);
  connection failures, column widths and the syntax check of the \<^verbatim>\<open>uuid\<close>
  type are not modelled: identifiers are well-formed and strings fit their columns.

  A string is a list of code units below 256; the accented letters of the Portuguese
  messages are written by their code (\<open>CHR 0xE1\<close> is a-acute).
\<close>

subsection \<open>Schema\<close>

type_synonym uuid = string
type_synonym time = int

text \<open>Table \<^verbatim>\<open>users\<close>. The timestamps are filled by \<^verbatim>\<open>defaultNow()\<close>.\<close>

record user =
  user_id :: uuid
  user_name :: string
  email :: string
  password :: string
  user_createdAt :: time
  user_updatedAt :: time

text \<open>
  Table \<^verbatim>\<open>projects\<close>. \<^verbatim>\<open>description\<close> is the one column an insert may leave
  null. \<^verbatim>\<open>createdAt\<close> and \<^verbatim>\<open>updatedAt\<close> have no \<^verbatim>\<open>notNull()\<close>, but
  no insert or update of the repository supplies a value for \<^verbatim>\<open>createdAt\<close> and the
  only value ever written to \<^verbatim>\<open>updatedAt\<close> is a date, so both always hold a time.
\<close>

record project =
  project_id :: uuid
  project_name :: string
  description :: "string option"
  status :: string
  startDate :: time
  userId :: uuid
  createdAt :: time
  updatedAt :: time

record database =
  users :: "user list"
  projects :: "project list"

definition empty_db :: database where
  "empty_db = \<lparr>users = [], projects = []\<rparr>"

text \<open>\<^verbatim>\<open>InsertUser\<close>: the columns of \<^verbatim>\<open>users\<close> without id and timestamps.\<close>

record insertUser =
  iu_name :: string
  iu_email :: string
  iu_password :: string

text \<open>
  \<^verbatim>\<open>InsertProject & { userId }\<close>. A description is \<open>None\<close> when the key is
  undefined, \<open>Some None\<close> when it is null; the status may be left to the column default.
\<close>

record insertProject =
  ip_name :: string
  ip_description :: "string option option"
  ip_status :: "string option"
  ip_startDate :: time
  ip_userId :: uuid

text \<open>\<^verbatim>\<open>Partial<InsertProject>\<close>: every key may be undefined (\<open>None\<close>).\<close>

record projectUpdates =
  up_name :: "string option"
  up_description :: "string option option"
  up_status :: "string option"
  up_startDate :: "time option"

datatype db_error = UniqueViolation | ForeignKeyViolation

record stats =
  total :: nat
  pendente :: nat
  andamento :: nat
  concluido :: nat

subsection \<open>DatabaseStorage\<close>

text \<open>\<^verbatim>\<open>const [row] = await db.select()...\<close>: the first row, or undefined.\<close>

definition first_row :: "'a list \<Rightarrow> 'a option" where
  "first_row rows = (case rows of [] \<Rightarrow> None | r # _ \<Rightarrow> Some r)"

definition getUser :: "database \<Rightarrow> uuid \<Rightarrow> user option" where
  "getUser d i = first_row (filter (\<lambda>u. user_id u = i) (users d))"

definition getUserByEmail :: "database \<Rightarrow> string \<Rightarrow> user option" where
  "getUserByEmail d e = first_row (filter (\<lambda>u. email u = e) (users d))"

text \<open>
  The insert draws the id (\<^verbatim>\<open>defaultRandom()\<close>) and stamps both times with the
  database clock. It throws when the id or the e-mail is already in the table.
\<close>

definition createUser ::
  "insertUser \<Rightarrow> uuid \<Rightarrow> time \<Rightarrow> database \<Rightarrow> db_error + (user \<times> database)" where
  "createUser iu new_id db_now d =
     (if new_id \<in> set (map user_id (users d)) \<or> iu_email iu \<in> set (map email (users d))
      then Inl UniqueViolation
      else let u = \<lparr>user_id = new_id, user_name = iu_name iu, email = iu_email iu,
                     password = iu_password iu, user_createdAt = db_now,
                     user_updatedAt = db_now\<rparr>
           in Inr (u, d\<lparr>users := users d @ [u]\<rparr>))"

definition getProjects :: "database \<Rightarrow> uuid \<Rightarrow> project list" where
  "getProjects d uid = sort_key createdAt (filter (\<lambda>p. userId p = uid) (projects d))"

definition getProject :: "database \<Rightarrow> uuid \<Rightarrow> uuid \<Rightarrow> project option" where
  "getProject d pid uid =
     first_row (filter (\<lambda>p. project_id p = pid \<and> userId p = uid) (projects d))"

definition createProject ::
  "insertProject \<Rightarrow> uuid \<Rightarrow> time \<Rightarrow> database \<Rightarrow> db_error + (project \<times> database)" where
  "createProject ip new_id db_now d =
     (if new_id \<in> set (map project_id (projects d)) then Inl UniqueViolation
      else if ip_userId ip \<notin> set (map user_id (users d)) then Inl ForeignKeyViolation
      else let p = \<lparr>project_id = new_id, project_name = ip_name ip,
                     description = (case ip_description ip of None \<Rightarrow> None | Some v \<Rightarrow> v),
                     status = (case ip_status ip of None \<Rightarrow> ''pendente'' | Some s \<Rightarrow> s),
                     startDate = ip_startDate ip, userId = ip_userId ip,
                     createdAt = db_now, updatedAt = db_now\<rparr>
           in Inr (p, d\<lparr>projects := projects d @ [p]\<rparr>))"

text \<open>
  \<^verbatim>\<open>.set({ ...updates, updatedAt: new Date() })\<close>: a key that is undefined leaves
  its column alone.
\<close>

definition set_columns :: "projectUpdates \<Rightarrow> time \<Rightarrow> project \<Rightarrow> project" where
  "set_columns up js_now p =
     p\<lparr>project_name := (case up_name up of None \<Rightarrow> project_name p | Some n \<Rightarrow> n),
       description := (case up_description up of None \<Rightarrow> description p | Some v \<Rightarrow> v),
       status := (case up_status up of None \<Rightarrow> status p | Some s \<Rightarrow> s),
       startDate := (case up_startDate up of None \<Rightarrow> startDate p | Some t \<Rightarrow> t),
       updatedAt := js_now\<rparr>"

definition updateProject ::
  "uuid \<Rightarrow> uuid \<Rightarrow> projectUpdates \<Rightarrow> time \<Rightarrow> database \<Rightarrow> project option \<times> database" where
  "updateProject pid uid up js_now d =
     (let hit = (\<lambda>p. project_id p = pid \<and> userId p = uid)
      in (first_row (map (set_columns up js_now) (filter hit (projects d))),
          d\<lparr>projects := map (\<lambda>p. if hit p then set_columns up js_now p else p) (projects d)\<rparr>))"

text \<open>\<^verbatim>\<open>(result.rowCount || 0) > 0\<close>: whether a row was deleted.\<close>

definition deleteProject :: "uuid \<Rightarrow> uuid \<Rightarrow> database \<Rightarrow> bool \<times> database" where
  "deleteProject pid uid d =
     (let hit = (\<lambda>p. project_id p = pid \<and> userId p = uid)
      in (0 < length (filter hit (projects d)),
          d\<lparr>projects := filter (\<lambda>p. \<not> hit p) (projects d)\<rparr>))"

definition getProjectStats :: "database \<Rightarrow> uuid \<Rightarrow> stats" where
  "getProjectStats d uid =
     (let userProjects = filter (\<lambda>p. userId p = uid) (projects d)
      in \<lparr>total = length userProjects,
          pendente = length (filter (\<lambda>p. status p = ''pendente'') userProjects),
          andamento = length (filter (\<lambda>p. status p = ''andamento'') userProjects),
          concluido = length (filter (\<lambda>p. status p = ''concluido'') userProjects)\<rparr>)"

subsection \<open>Requests, responses and what the platform supplies\<close>

datatype json =
    JNull
  | JString string
  | JNumber int
  | JDate time
  | JArray "json list"
  | JObject "(string \<times> json) list"

text \<open>\<^verbatim>\<open>res.status(c).json(v)\<close>; the body is \<open>None\<close> after \<^verbatim>\<open>.send()\<close>.\<close>

record response =
  res_status :: nat
  res_body :: "json option"

definition json_message :: "nat \<Rightarrow> string \<Rightarrow> response" where
  "json_message c m = \<lparr>res_status = c, res_body = Some (JObject [(''message'', JString m)])\<rparr>"

text \<open>
  The request body is a JSON object (what \<^verbatim>\<open>express.json()\<close> hands to a route),
  read key by key. A value found under a key: missing, null, a string, or a value of
  another type (carrying the type name zod reports for it).
\<close>

datatype jsval = Undefined | Null | Str string | Other string

record request =
  authorization :: "string option"
  body :: "string \<Rightarrow> jsval"
  params_id :: string

text \<open>The payload of a token: \<^verbatim>\<open>{ userId, email }\<close>.\<close>

record claims =
  claim_userId :: uuid
  claim_email :: string

datatype zod_issue =
    Invalid_type string string
  | Invalid_enum_value string
  | Custom string

text \<open>
  What \<^verbatim>\<open>parse\<close> throws: a \<^verbatim>\<open>ZodError\<close> with its non-empty list
  \<^verbatim>\<open>errors\<close>, or zod's plain error for a failure that recorded no issue (it has no
  \<^verbatim>\<open>errors\<close>; the schemas below never raise it).
\<close>

datatype zod_failure = ZodError zod_issue "zod_issue list" | NoIssues

text \<open>The copy of \<^verbatim>\<open>shared/schema.ts\<close> that the server imports.\<close>

datatype schema_copy = Part_000 | Part_001

text \<open>The libraries, the process environment and the schema copy in use.\<close>

record ext =
  shared_schema :: schema_copy
  process_env_JWT_SECRET :: "string option"
  jwt_sign :: "claims \<Rightarrow> string \<Rightarrow> nat \<Rightarrow> time \<Rightarrow> string"
  jwt_verify :: "string \<Rightarrow> string \<Rightarrow> time \<Rightarrow> claims option"
  bcrypt_hash :: "string \<Rightarrow> nat \<Rightarrow> string \<Rightarrow> string"
  bcrypt_compare :: "string \<Rightarrow> string \<Rightarrow> bool"
  is_email :: "string \<Rightarrow> bool"
  Date_parse :: "string \<Rightarrow> time option"
  zod_message :: "zod_issue \<Rightarrow> string"

text \<open>What one request draws from the platform.\<close>

record env =
  db_now :: time
  js_now :: time
  random_uuid :: uuid
  salt :: string

subsection \<open>Messages\<close>

definition msg_token_requerido :: string where
  "msg_token_requerido = ''Token de acesso requerido''"

definition msg_token_invalido :: string where
  "msg_token_invalido = ''Token inv'' @ [CHR 0xE1] @ ''lido''"

definition msg_email_em_uso :: string where
  "msg_email_em_uso = ''Email j'' @ [CHR 0xE1] @ '' est'' @ [CHR 0xE1] @ '' em uso''"

definition msg_erro_interno :: string where
  "msg_erro_interno = ''Erro interno do servidor''"

definition msg_credenciais :: string where
  "msg_credenciais = ''Email ou senha inv'' @ [CHR 0xE1] @ ''lidos''"

definition msg_usuario_nao_encontrado :: string where
  "msg_usuario_nao_encontrado =
     ''Usu'' @ [CHR 0xE1] @ ''rio n'' @ [CHR 0xE3] @ ''o encontrado''"

definition msg_projeto_nao_encontrado :: string where
  "msg_projeto_nao_encontrado = ''Projeto n'' @ [CHR 0xE3] @ ''o encontrado''"

definition msg_email_invalido :: string where
  "msg_email_invalido = ''Email inv'' @ [CHR 0xE1] @ ''lido''"

definition msg_senha_curta :: string where
  "msg_senha_curta = ''Senha deve ter pelo menos 6 caracteres''"

definition msg_confirmacao :: string where
  "msg_confirmacao =
     ''Confirma'' @ [CHR 0xE7, CHR 0xE3] @ ''o de senha obrigat'' @ [CHR 0xF3] @ ''ria''"

definition msg_senhas_diferentes :: string where
  "msg_senhas_diferentes = ''Senhas n'' @ [CHR 0xE3] @ ''o conferem''"

definition msg_data_invalida :: string where
  "msg_data_invalida = ''Data inv'' @ [CHR 0xE1] @ ''lida''"

text \<open>The messages that only the schemas of \<^verbatim>\<open>part_001\<close> have.\<close>

definition msg_email_obrigatorio :: string where
  "msg_email_obrigatorio = ''Email '' @ [CHR 0xE9] @ '' obrigat'' @ [CHR 0xF3] @ ''rio''"

definition msg_senha_obrigatoria :: string where
  "msg_senha_obrigatoria = ''Senha '' @ [CHR 0xE9] @ '' obrigat'' @ [CHR 0xF3] @ ''ria''"

definition msg_nome_obrigatorio :: string where
  "msg_nome_obrigatorio = ''Nome '' @ [CHR 0xE9] @ '' obrigat'' @ [CHR 0xF3] @ ''rio''"

definition msg_nome_curto :: string where
  "msg_nome_curto = ''Nome deve ter pelo menos 2 caracteres''"

definition msg_confirmacao_obrigatoria :: string where
  "msg_confirmacao_obrigatoria =
     ''Confirma'' @ [CHR 0xE7, CHR 0xE3] @ ''o de senha '' @ [CHR 0xE9] @ '' obrigat''
       @ [CHR 0xF3] @ ''ria''"

definition msg_nome_projeto_obrigatorio :: string where
  "msg_nome_projeto_obrigatorio =
     ''Nome do projeto '' @ [CHR 0xE9] @ '' obrigat'' @ [CHR 0xF3] @ ''rio''"

definition msg_data_obrigatoria :: string where
  "msg_data_obrigatoria =
     ''Data de in'' @ [CHR 0xED] @ ''cio '' @ [CHR 0xE9] @ '' obrigat'' @ [CHR 0xF3] @ ''ria''"

subsection \<open>The zod schemas\<close>

text \<open>
  \<^verbatim>\<open>z.string()\<close> followed by its checks: a value that is not a string is a type
  issue and yields no value; a string is checked and kept.
\<close>

definition z_string :: "jsval \<Rightarrow> (string \<Rightarrow> zod_issue list) \<Rightarrow> zod_issue list \<times> string option" where
  "z_string v checks =
     (case v of
        Str s \<Rightarrow> (checks s, Some s)
      | Undefined \<Rightarrow> ([Invalid_type ''string'' ''undefined''], None)
      | Null \<Rightarrow> ([Invalid_type ''string'' ''null''], None)
      | Other t \<Rightarrow> ([Invalid_type ''string'' t], None))"

definition z_min :: "nat \<Rightarrow> string \<Rightarrow> string \<Rightarrow> zod_issue list" where
  "z_min n m s = (if length s < n then [Custom m] else [])"

text \<open>\<^verbatim>\<open>.email(m)\<close> and the date refinement \<^verbatim>\<open>!isNaN(Date.parse(date))\<close>.\<close>

definition z_email :: "ext \<Rightarrow> string \<Rightarrow> string \<Rightarrow> zod_issue list" where
  "z_email x m s = (if is_email x s then [] else [Custom m])"

definition z_date :: "ext \<Rightarrow> string \<Rightarrow> string \<Rightarrow> zod_issue list" where
  "z_date x m s = (if Date_parse x s = None then [Custom m] else [])"

text \<open>
  The checks that each schema chains on a string, per copy. Every check of a chain runs
  and adds its issue, in the order written.
\<close>

definition login_email_checks :: "ext \<Rightarrow> string \<Rightarrow> zod_issue list" where
  "login_email_checks x s =
     (case shared_schema x of
        Part_000 \<Rightarrow> z_email x msg_email_invalido s
      | Part_001 \<Rightarrow> z_min 1 msg_email_obrigatorio s @ z_email x msg_email_invalido s)"

text \<open>The password of \<^verbatim>\<open>loginSchema\<close> and of \<^verbatim>\<open>registerSchema\<close>.\<close>

definition password_checks :: "ext \<Rightarrow> string \<Rightarrow> zod_issue list" where
  "password_checks x s =
     (case shared_schema x of
        Part_000 \<Rightarrow> z_min 6 msg_senha_curta s
      | Part_001 \<Rightarrow> z_min 1 msg_senha_obrigatoria s @ z_min 6 msg_senha_curta s)"

definition register_name_checks :: "ext \<Rightarrow> string \<Rightarrow> zod_issue list" where
  "register_name_checks x s =
     (case shared_schema x of
        Part_000 \<Rightarrow> []
      | Part_001 \<Rightarrow> z_min 1 msg_nome_obrigatorio s @ z_min 2 msg_nome_curto s)"

definition register_email_checks :: "ext \<Rightarrow> string \<Rightarrow> zod_issue list" where
  "register_email_checks x s =
     (case shared_schema x of
        Part_000 \<Rightarrow> []
      | Part_001 \<Rightarrow> z_min 1 msg_email_obrigatorio s @ z_email x msg_email_invalido s)"

definition register_confirm_checks :: "ext \<Rightarrow> string \<Rightarrow> zod_issue list" where
  "register_confirm_checks x s =
     (case shared_schema x of
        Part_000 \<Rightarrow> z_min 6 msg_confirmacao s
      | Part_001 \<Rightarrow> z_min 1 msg_confirmacao_obrigatoria s)"

definition project_name_checks :: "ext \<Rightarrow> string \<Rightarrow> zod_issue list" where
  "project_name_checks x s =
     (case shared_schema x of
        Part_000 \<Rightarrow> []
      | Part_001 \<Rightarrow> z_min 1 msg_nome_projeto_obrigatorio s @ z_min 2 msg_nome_curto s)"

definition project_startDate_checks :: "ext \<Rightarrow> string \<Rightarrow> zod_issue list" where
  "project_startDate_checks x s =
     (case shared_schema x of
        Part_000 \<Rightarrow> z_date x msg_data_invalida s
      | Part_001 \<Rightarrow> z_min 1 msg_data_obrigatoria s @ z_date x msg_data_invalida s)"

text \<open>The nullable, optional \<^verbatim>\<open>description\<close> of \<^verbatim>\<open>insertProjectSchema\<close>.\<close>

definition z_description :: "jsval \<Rightarrow> zod_issue list \<times> string option option option" where
  "z_description v =
     (case v of
        Undefined \<Rightarrow> ([], Some None)
      | Null \<Rightarrow> ([], Some (Some None))
      | Str s \<Rightarrow> ([], Some (Some (Some s)))
      | Other t \<Rightarrow> ([Invalid_type ''string'' t], None))"

definition status_values :: "string list" where
  "status_values = [''pendente'', ''andamento'', ''concluido'']"

definition status_expected :: string where
  "status_expected = [CHR 0x27] @ ''pendente'' @ [CHR 0x27] @ '' | '' @ [CHR 0x27]
     @ ''andamento'' @ [CHR 0x27] @ '' | '' @ [CHR 0x27] @ ''concluido'' @ [CHR 0x27]"

text \<open>\<^verbatim>\<open>z.enum(["pendente", "andamento", "concluido"])\<close>.\<close>

definition z_status :: "jsval \<Rightarrow> zod_issue list \<times> string option" where
  "z_status v =
     (case v of
        Str s \<Rightarrow> (if s \<in> set status_values then ([], Some s)
                  else ([Invalid_enum_value s], None))
      | Undefined \<Rightarrow> ([Invalid_type status_expected ''undefined''], None)
      | Null \<Rightarrow> ([Invalid_type status_expected ''null''], None)
      | Other t \<Rightarrow> ([Invalid_type status_expected t], None))"

definition finish :: "zod_issue list \<Rightarrow> 'a option \<Rightarrow> zod_failure + 'a" where
  "finish issues v =
     (case issues of
        i # rest \<Rightarrow> Inl (ZodError i rest)
      | [] \<Rightarrow> (case v of Some a \<Rightarrow> Inr a | None \<Rightarrow> Inl NoIssues))"

record loginData =
  ld_email :: string
  ld_password :: string

definition loginSchema_parse :: "ext \<Rightarrow> (string \<Rightarrow> jsval) \<Rightarrow> zod_failure + loginData" where
  "loginSchema_parse x b =
     (let (ie, ve) = z_string (b ''email'') (login_email_checks x);
          (ip, vp) = z_string (b ''password'') (password_checks x)
      in finish (ie @ ip)
           (case (ve, vp) of
              (Some e, Some p) \<Rightarrow> Some \<lparr>ld_email = e, ld_password = p\<rparr>
            | _ \<Rightarrow> None))"

record registerData =
  rd_name :: string
  rd_email :: string
  rd_password :: string
  rd_confirmPassword :: string

text \<open>
  \<^verbatim>\<open>registerSchema\<close>: the object schema, then the refinement, which runs once every
  key holds a string.
\<close>

definition registerSchema_parse :: "ext \<Rightarrow> (string \<Rightarrow> jsval) \<Rightarrow> zod_failure + registerData" where
  "registerSchema_parse x b =
     (let (i1, vn) = z_string (b ''name'') (register_name_checks x);
          (i2, ve) = z_string (b ''email'') (register_email_checks x);
          (i3, vp) = z_string (b ''password'') (password_checks x);
          (i4, vc) = z_string (b ''confirmPassword'') (register_confirm_checks x)
      in case (vn, ve, vp, vc) of
           (Some n, Some e, Some p, Some c) \<Rightarrow>
             finish (i1 @ i2 @ i3 @ i4 @ (if p = c then [] else [Custom msg_senhas_diferentes]))
               (Some \<lparr>rd_name = n, rd_email = e, rd_password = p, rd_confirmPassword = c\<rparr>)
         | _ \<Rightarrow> finish (i1 @ i2 @ i3 @ i4) None)"

record projectData =
  pd_name :: string
  pd_description :: "string option option"
  pd_status :: string
  pd_startDate :: string

definition projectSchema_parse :: "ext \<Rightarrow> (string \<Rightarrow> jsval) \<Rightarrow> zod_failure + projectData" where
  "projectSchema_parse x b =
     (let (i1, vn) = z_string (b ''name'') (project_name_checks x);
          (i2, vd) = z_description (b ''description'');
          (i3, vs) = z_status (b ''status'');
          (i4, vt) = z_string (b ''startDate'') (project_startDate_checks x)
      in finish (i1 @ i2 @ i3 @ i4)
           (case (vn, vd, vs, vt) of
              (Some n, Some de, Some s, Some t) \<Rightarrow>
                Some \<lparr>pd_name = n, pd_description = de, pd_status = s, pd_startDate = t\<rparr>
            | _ \<Rightarrow> None))"

text \<open>\<^verbatim>\<open>error.errors[0].message\<close>.\<close>

definition issue_message :: "ext \<Rightarrow> zod_issue \<Rightarrow> string" where
  "issue_message x i = (case i of Custom m \<Rightarrow> m | _ \<Rightarrow> zod_message x i)"

text \<open>
  The \<^verbatim>\<open>catch\<close> block of the four validating routes, on what \<^verbatim>\<open>parse\<close> threw.
\<close>

definition on_parse_error :: "ext \<Rightarrow> string \<Rightarrow> zod_failure \<Rightarrow> response" where
  "on_parse_error x fallback f =
     (case f of
        ZodError i rest \<Rightarrow> json_message 400 (issue_message x i)
      | NoIssues \<Rightarrow> json_message 500 fallback)"

subsection \<open>Token secret and the authenticator\<close>

text \<open>
  \<^verbatim>\<open>process.env.JWT_SECRET || "your-secret-key"\<close>: the default also replaces an empty
  value.
\<close>

definition JWT_SECRET :: "string option \<Rightarrow> string" where
  "JWT_SECRET v =
     (case v of None \<Rightarrow> ''your-secret-key''
      | Some s \<Rightarrow> if s = [] then ''your-secret-key'' else s)"

text \<open>\<^verbatim>\<open>s.split(c)\<close> for a one-character separator.\<close>

fun split :: "char \<Rightarrow> string \<Rightarrow> string list" where
  "split c [] = [[]]"
| "split c (a # s) =
     (if a = c then [] # split c s
      else (case split c s of [] \<Rightarrow> [[a]] | w # ws \<Rightarrow> (a # w) # ws))"

text \<open>\<^verbatim>\<open>authHeader && authHeader.split(' ')[1]\<close>; \<open>None\<close> is undefined.\<close>

definition header_token :: "string option \<Rightarrow> string option" where
  "header_token authHeader =
     (case authHeader of
        None \<Rightarrow> None
      | Some h \<Rightarrow> if h = [] then Some []
                  else (case split (CHR '' '') h of _ # t # _ \<Rightarrow> Some t | _ \<Rightarrow> None))"

text \<open>The middleware either answers itself or sets \<^verbatim>\<open>req.user\<close> and calls \<^verbatim>\<open>next()\<close>.\<close>

datatype auth_result = Answer response | Next claims

definition authenticateToken :: "ext \<Rightarrow> string option \<Rightarrow> time \<Rightarrow> auth_result" where
  "authenticateToken x authHeader now =
     (case header_token authHeader of
        None \<Rightarrow> Answer (json_message 401 msg_token_requerido)
      | Some token \<Rightarrow>
          if token = [] then Answer (json_message 401 msg_token_requerido)
          else (case jwt_verify x token (JWT_SECRET (process_env_JWT_SECRET x)) now of
                  None \<Rightarrow> Answer (json_message 403 msg_token_invalido)
                | Some u \<Rightarrow> Next u))"

text \<open>\<^verbatim>\<open>app.METHOD(path, authenticateToken, handler)\<close>.\<close>

definition protected ::
  "ext \<Rightarrow> env \<Rightarrow> request \<Rightarrow> (claims \<Rightarrow> database \<Rightarrow> response \<times> database) \<Rightarrow> database
     \<Rightarrow> response \<times> database" where
  "protected x e q handler d =
     (case authenticateToken x (authorization q) (js_now e) of
        Answer r \<Rightarrow> (r, d)
      | Next u \<Rightarrow> handler u d)"

subsection \<open>Routes\<close>

definition project_json :: "project \<Rightarrow> json" where
  "project_json p =
     JObject [(''id'', JString (project_id p)), (''name'', JString (project_name p)),
              (''description'', (case description p of None \<Rightarrow> JNull | Some s \<Rightarrow> JString s)),
              (''status'', JString (status p)), (''startDate'', JDate (startDate p)),
              (''userId'', JString (userId p)), (''createdAt'', JDate (createdAt p)),
              (''updatedAt'', JDate (updatedAt p))]"

definition week :: nat where
  "week = 7 * 24 * 60 * 60"

definition issue_token :: "ext \<Rightarrow> env \<Rightarrow> user \<Rightarrow> string" where
  "issue_token x e u =
     jwt_sign x \<lparr>claim_userId = user_id u, claim_email = email u\<rparr>
       (JWT_SECRET (process_env_JWT_SECRET x)) week (js_now e)"

definition post_auth_register :: "ext \<Rightarrow> env \<Rightarrow> request \<Rightarrow> database \<Rightarrow> response \<times> database" where
  "post_auth_register x e q d =
     (case registerSchema_parse x (body q) of
        Inl f \<Rightarrow> (on_parse_error x msg_erro_interno f, d)
      | Inr validatedData \<Rightarrow>
          (case getUserByEmail d (rd_email validatedData) of
             Some existingUser \<Rightarrow> (json_message 400 msg_email_em_uso, d)
           | None \<Rightarrow>
               (let hashedPassword = bcrypt_hash x (rd_password validatedData) 10 (salt e)
                in case createUser \<lparr>iu_name = rd_name validatedData,
                                    iu_email = rd_email validatedData,
                                    iu_password = hashedPassword\<rparr>
                          (random_uuid e) (db_now e) d of
                     Inl err \<Rightarrow> (json_message 500 msg_erro_interno, d)
                   | Inr (u, d') \<Rightarrow>
                       (\<lparr>res_status = 201,
                         res_body = Some (JObject
                           [(''token'', JString (issue_token x e u)),
                            (''user'', JObject [(''id'', JString (user_id u)),
                                                (''name'', JString (user_name u)),
                                                (''email'', JString (email u))])])\<rparr>, d'))))"

definition post_auth_login :: "ext \<Rightarrow> env \<Rightarrow> request \<Rightarrow> database \<Rightarrow> response \<times> database" where
  "post_auth_login x e q d =
     (case loginSchema_parse x (body q) of
        Inl f \<Rightarrow> (on_parse_error x msg_erro_interno f, d)
      | Inr validatedData \<Rightarrow>
          (case getUserByEmail d (ld_email validatedData) of
             None \<Rightarrow> (json_message 401 msg_credenciais, d)
           | Some u \<Rightarrow>
               if \<not> bcrypt_compare x (ld_password validatedData) (password u)
               then (json_message 401 msg_credenciais, d)
               else (\<lparr>res_status = 200,
                      res_body = Some (JObject
                        [(''token'', JString (issue_token x e u)),
                         (''user'', JObject [(''id'', JString (user_id u)),
                                             (''name'', JString (user_name u)),
                                             (''email'', JString (email u))])])\<rparr>, d)))"

definition get_auth_user :: "claims \<Rightarrow> database \<Rightarrow> response \<times> database" where
  "get_auth_user req_user d =
     (case getUser d (claim_userId req_user) of
        None \<Rightarrow> (json_message 404 msg_usuario_nao_encontrado, d)
      | Some u \<Rightarrow>
          (\<lparr>res_status = 200,
            res_body = Some (JObject [(''id'', JString (user_id u)),
                                      (''name'', JString (user_name u)),
                                      (''email'', JString (email u))])\<rparr>, d))"

definition get_projects :: "claims \<Rightarrow> database \<Rightarrow> response \<times> database" where
  "get_projects req_user d =
     (\<lparr>res_status = 200,
       res_body = Some (JArray (map project_json (getProjects d (claim_userId req_user))))\<rparr>, d)"

definition get_projects_stats :: "claims \<Rightarrow> database \<Rightarrow> response \<times> database" where
  "get_projects_stats req_user d =
     (let st = getProjectStats d (claim_userId req_user)
      in (\<lparr>res_status = 200,
           res_body = Some (JObject [(''total'', JNumber (int (total st))),
                                     (''pendente'', JNumber (int (pendente st))),
                                     (''andamento'', JNumber (int (andamento st))),
                                     (''concluido'', JNumber (int (concluido st)))])\<rparr>, d))"

text \<open>
  \<^verbatim>\<open>new Date(validatedData.startDate)\<close> reads the string as \<^verbatim>\<open>Date.parse\<close> does;
  an invalid date would make the store call throw.
\<close>

definition post_projects ::
  "ext \<Rightarrow> env \<Rightarrow> request \<Rightarrow> claims \<Rightarrow> database \<Rightarrow> response \<times> database" where
  "post_projects x e q req_user d =
     (case projectSchema_parse x (body q) of
        Inl f \<Rightarrow> (on_parse_error x ''Erro ao criar projeto'' f, d)
      | Inr validatedData \<Rightarrow>
          (case Date_parse x (pd_startDate validatedData) of
             None \<Rightarrow> (json_message 500 ''Erro ao criar projeto'', d)
           | Some t \<Rightarrow>
               (case createProject \<lparr>ip_name = pd_name validatedData,
                                    ip_description = pd_description validatedData,
                                    ip_status = Some (pd_status validatedData),
                                    ip_startDate = t,
                                    ip_userId = claim_userId req_user\<rparr>
                       (random_uuid e) (db_now e) d of
                  Inl err \<Rightarrow> (json_message 500 ''Erro ao criar projeto'', d)
                | Inr (p, d') \<Rightarrow>
                    (\<lparr>res_status = 201, res_body = Some (project_json p)\<rparr>, d'))))"

definition get_project :: "request \<Rightarrow> claims \<Rightarrow> database \<Rightarrow> response \<times> database" where
  "get_project q req_user d =
     (case getProject d (params_id q) (claim_userId req_user) of
        None \<Rightarrow> (json_message 404 msg_projeto_nao_encontrado, d)
      | Some p \<Rightarrow> (\<lparr>res_status = 200, res_body = Some (project_json p)\<rparr>, d))"

definition put_project ::
  "ext \<Rightarrow> env \<Rightarrow> request \<Rightarrow> claims \<Rightarrow> database \<Rightarrow> response \<times> database" where
  "put_project x e q req_user d =
     (case projectSchema_parse x (body q) of
        Inl f \<Rightarrow> (on_parse_error x ''Erro ao atualizar projeto'' f, d)
      | Inr validatedData \<Rightarrow>
          (case Date_parse x (pd_startDate validatedData) of
             None \<Rightarrow> (json_message 500 ''Erro ao atualizar projeto'', d)
           | Some t \<Rightarrow>
               (case updateProject (params_id q) (claim_userId req_user)
                       \<lparr>up_name = Some (pd_name validatedData),
                        up_description = pd_description validatedData,
                        up_status = Some (pd_status validatedData),
                        up_startDate = Some t\<rparr>
                       (js_now e) d of
                  (None, d') \<Rightarrow> (json_message 404 msg_projeto_nao_encontrado, d')
                | (Some p, d') \<Rightarrow>
                    (\<lparr>res_status = 200, res_body = Some (project_json p)\<rparr>, d'))))"

definition delete_project :: "request \<Rightarrow> claims \<Rightarrow> database \<Rightarrow> response \<times> database" where
  "delete_project q req_user d =
     (case deleteProject (params_id q) (claim_userId req_user) d of
        (deleted, d') \<Rightarrow>
          if \<not> deleted then (json_message 404 msg_projeto_nao_encontrado, d')
          else (\<lparr>res_status = 204, res_body = None\<rparr>, d'))"

datatype route =
    POST_auth_register
  | POST_auth_login
  | GET_auth_user
  | GET_projects
  | GET_projects_stats
  | POST_projects
  | GET_project
  | PUT_project
  | DELETE_project

fun handle :: "ext \<Rightarrow> env \<Rightarrow> route \<Rightarrow> request \<Rightarrow> database \<Rightarrow> response \<times> database" where
  "handle x e POST_auth_register q d = post_auth_register x e q d"
| "handle x e POST_auth_login q d = post_auth_login x e q d"
| "handle x e GET_auth_user q d = protected x e q get_auth_user d"
| "handle x e GET_projects q d = protected x e q get_projects d"
| "handle x e GET_projects_stats q d = protected x e q get_projects_stats d"
| "handle x e POST_projects q d = protected x e q (post_projects x e q) d"
| "handle x e GET_project q d = protected x e q (get_project q) d"
| "handle x e PUT_project q d = protected x e q (put_project x e q) d"
| "handle x e DELETE_project q d = protected x e q (delete_project q) d"

text \<open>The states the server can be in: it starts on empty tables and answers requests.\<close>

inductive reachable :: "ext \<Rightarrow> database \<Rightarrow> bool" for x :: ext where
  start: "reachable x empty_db"
| request: "reachable x d \<Longrightarrow> reachable x (snd (handle x e r q d))"

text \<open>What a sequence of requests can make of a database.\<close>

inductive runs :: "ext \<Rightarrow> database \<Rightarrow> database \<Rightarrow> bool" for x :: ext and d :: database where
  here: "runs x d d"
| later: "runs x d d' \<Longrightarrow> runs x d (snd (handle x e r q d'))"

subsection \<open>Constraints of the schema, reachable states, keys of a response\<close>

text \<open>
  The constraints the schema declares: both primary keys, the unique e-mail and the
  foreign key from a project to its owner.
\<close>

definition constraints :: "database \<Rightarrow> bool" where
  "constraints d \<longleftrightarrow>
     distinct (map user_id (users d)) \<and> distinct (map email (users d))
     \<and> distinct (map project_id (projects d))
     \<and> (\<forall>p \<in> set (projects d). userId p \<in> set (map user_id (users d)))"

text \<open>Every stored status is one of the three values of the enumeration.\<close>

definition valid_statuses :: "database \<Rightarrow> bool" where
  "valid_statuses d \<longleftrightarrow> (\<forall>p \<in> set (projects d). status p \<in> set status_values)"

text \<open>All the keys that occur in a JSON value, at any depth.\<close>

fun json_keys :: "json \<Rightarrow> string set" where
  "json_keys (JArray vs) = (\<Union>v \<in> set vs. json_keys v)"
| "json_keys (JObject kvs) = fst ` set kvs \<union> (\<Union>kv \<in> set kvs. json_keys (snd kv))"
| "json_keys _ = {}"

definition response_keys :: "response \<Rightarrow> string set" where
  "response_keys r = (case res_body r of None \<Rightarrow> {} | Some j \<Rightarrow> json_keys j)"

subsection \<open>A worked run\<close>

text \<open>
  An instance of the libraries, small enough to compute with, and the scenario of a
  registration followed by the creation of a project. The general theorems hold for
  every instance; this one serves to run the model on concrete requests.
\<close>

definition example_ext :: ext where
  "example_ext =
     \<lparr>shared_schema = Part_001,
      process_env_JWT_SECRET = None,
      jwt_sign = (\<lambda>c k ttl t. k @ ''|'' @ claim_userId c @ ''|'' @ claim_email c),
      jwt_verify = (\<lambda>s k t. case split (CHR ''|'') s of
                       [k', i, m] \<Rightarrow> if k' = k then Some \<lparr>claim_userId = i, claim_email = m\<rparr>
                                     else None
                     | _ \<Rightarrow> None),
      bcrypt_hash = (\<lambda>p rounds s. s @ ''$'' @ p),
      bcrypt_compare = (\<lambda>p h. case split (CHR ''$'') h of [s, p'] \<Rightarrow> p' = p | _ \<Rightarrow> False),
      is_email = (\<lambda>s. CHR ''@'' \<in> set s),
      Date_parse = (\<lambda>s. if s = ''2025-01-01'' then Some 1735689600000 else None),
      zod_message = (\<lambda>i. ''Required'')\<rparr>"

definition uuid_ana :: uuid where "uuid_ana = ''0a0a0a0a-0000-4000-8000-000000000001''"
definition uuid_bia :: uuid where "uuid_bia = ''0b0b0b0b-0000-4000-8000-000000000002''"
definition uuid_site :: uuid where "uuid_site = ''0c0c0c0c-0000-4000-8000-000000000003''"

definition body_of :: "(string \<times> jsval) list \<Rightarrow> string \<Rightarrow> jsval" where
  "body_of kvs k = (case map_of kvs k of None \<Rightarrow> Undefined | Some v \<Rightarrow> v)"

definition env_ana :: env where
  "env_ana = \<lparr>db_now = 1000, js_now = 1000, random_uuid = uuid_ana, salt = ''s1''\<rparr>"

definition env_site :: env where
  "env_site = \<lparr>db_now = 2000, js_now = 2000, random_uuid = uuid_site, salt = ''s2''\<rparr>"

definition body_ana :: "string \<Rightarrow> jsval" where
  "body_ana = body_of [(''name'', Str ''Ana''), (''email'', Str ''ana@x.com''),
                       (''password'', Str ''secret1''), (''confirmPassword'', Str ''secret1'')]"

definition body_site :: "string \<Rightarrow> jsval" where
  "body_site = body_of [(''name'', Str ''Site''), (''status'', Str ''pendente''),
                        (''startDate'', Str ''2025-01-01'')]"

definition claims_ana :: claims where
  "claims_ana = \<lparr>claim_userId = uuid_ana, claim_email = ''ana@x.com''\<rparr>"

definition register_ana :: request where
  "register_ana =
     \<lparr>authorization = None,
      body = body_ana,
      params_id = []\<rparr>"

definition token_ana :: string where
  "token_ana = ''your-secret-key|'' @ uuid_ana @ ''|ana@x.com''"

definition create_site :: request where
  "create_site =
     \<lparr>authorization = Some (''Bearer '' @ token_ana),
      body = body_site,
      params_id = []\<rparr>"

definition db_ana :: database where
  "db_ana = snd (handle example_ext env_ana POST_auth_register register_ana empty_db)"

definition db_site :: database where
  "db_site = snd (handle example_ext env_site POST_projects create_site db_ana)"

definition ana :: user where
  "ana = \<lparr>user_id = uuid_ana, user_name = ''Ana'', email = ''ana@x.com'',
          password = ''s1$secret1'', user_createdAt = 1000, user_updatedAt = 1000\<rparr>"

definition site :: project where
  "site = \<lparr>project_id = uuid_site, project_name = ''Site'', description = None,
           status = ''pendente'', startDate = 1735689600000, userId = uuid_ana,
           createdAt = 2000, updatedAt = 2000\<rparr>"

definition bia :: user where
  "bia = \<lparr>user_id = uuid_bia, user_name = ''Bia'', email = ''bia@x.com'',
          password = ''s3$secret2'', user_createdAt = 1500, user_updatedAt = 1500\<rparr>"

definition db_two :: database where
  "db_two = \<lparr>users = [ana, bia], projects = [site]\<rparr>"

definition rename_site :: projectUpdates where
  "rename_site = \<lparr>up_name = Some ''Portal'', up_description = None, up_status = None,
                  up_startDate = None\<rparr>"

definition delete_site :: request where
  "delete_site = \<lparr>authorization = Some (''Bearer '' @ token_ana), body = body_of [],
                   params_id = uuid_site\<rparr>"

definition env_later :: env where
  "env_later = \<lparr>db_now = 3000, js_now = 3000, random_uuid = uuid_bia, salt = ''s3''\<rparr>"

definition no_header :: request where
  "no_header = \<lparr>authorization = None, body = body_of [], params_id = []\<rparr>"

definition bad_token :: request where
  "bad_token = \<lparr>authorization = Some ''Bearer abc.def.ghi'', body = body_of [], params_id = []\<rparr>"

definition login_ghost :: request where
  "login_ghost =
     \<lparr>authorization = None,
      body = body_of [(''email'', Str ''ghost@x.com''), (''password'', Str ''abc'')],
      params_id = []\<rparr>"

definition login_ana_short :: request where
  "login_ana_short =
     \<lparr>authorization = None,
      body = body_of [(''email'', Str ''ana@x.com''), (''password'', Str ''abc'')],
      params_id = []\<rparr>"

definition login_ana_wrong :: request where
  "login_ana_wrong =
     \<lparr>authorization = None,
      body = body_of [(''email'', Str ''ana@x.com''), (''password'', Str ''secret2'')],
      params_id = []\<rparr>"

definition register_ana_short :: request where
  "register_ana_short =
     \<lparr>authorization = None,
      body = body_of [(''name'', Str ''Ana''), (''email'', Str ''ana@x.com''),
                      (''password'', Str ''abc''), (''confirmPassword'', Str ''abc'')],
      params_id = []\<rparr>"


definition login_ana :: request where
  "login_ana =
     \<lparr>authorization = None,
      body = body_of [(''email'', Str ''ana@x.com''), (''password'', Str ''secret1'')],
      params_id = []\<rparr>"

subsection \<open>Databases that agree on everything but the digests\<close>

text \<open>
  Two user rows that agree on every column except \<^verbatim>\<open>password\<close>, and two databases
  whose user tables agree row by row in that sense and whose project tables are equal.
\<close>

definition same_user :: "user \<Rightarrow> user \<Rightarrow> bool" where
  "same_user u u' \<longleftrightarrow>
     user_id u = user_id u' \<and> user_name u = user_name u' \<and> email u = email u'
     \<and> user_createdAt u = user_createdAt u' \<and> user_updatedAt u = user_updatedAt u'"

definition same_public :: "database \<Rightarrow> database \<Rightarrow> bool" where
  "same_public d d' \<longleftrightarrow> list_all2 same_user (users d) (users d') \<and> projects d = projects d'"

text \<open>
  The worked run under the other schema copy, a second digest for the same user, a second
  hashing function, and a registration with an empty name.
\<close>

definition example_ext_000 :: ext where
  "example_ext_000 = example_ext\<lparr>shared_schema := Part_000\<rparr>"




definition register_noname :: request where
  "register_noname =
     \<lparr>authorization = None,
      body = body_of [(''name'', Str ''''), (''email'', Str ''ana@x.com''),
                      (''password'', Str ''secret1''), (''confirmPassword'', Str ''secret1'')],
      params_id = []\<rparr>"

section \<open>Lemmas\<close>

lemmas schema_checks =
  login_email_checks_def password_checks_def register_name_checks_def
  register_email_checks_def register_confirm_checks_def project_name_checks_def
  project_startDate_checks_def z_email_def z_date_def

lemma first_row_None [simp]: "first_row xs = None \<longleftrightarrow> xs = []"
  by (cases xs) (simp_all add: first_row_def)

lemma same_id_same_row:
  assumes "distinct (map project_id ps)" "p \<in> set ps" "q \<in> set ps" "project_id q = project_id p"
  shows "q = p"
  using assms by (meson distinct_map inj_onD)

lemma no_hit_other_owner:
  assumes "distinct (map project_id ps)" "p \<in> set ps" "userId p \<noteq> b"
  shows "filter (\<lambda>q. project_id q = project_id p \<and> userId q = b) ps = []"
  using assms same_id_same_row [OF assms(1,2)] by (auto simp: filter_empty_conv)

lemma updateProject_no_hit:
  assumes "filter (\<lambda>q. project_id q = pid \<and> userId q = uid) (projects d) = []"
  shows "updateProject pid uid up now d = (None, d)"
proof -
  have "map (\<lambda>p. if project_id p = pid \<and> userId p = uid then set_columns up now p else p) (projects d)
        = projects d"
    using assms by (intro map_idI) (auto simp: filter_empty_conv)
  then show ?thesis using assms by (simp add: updateProject_def Let_def)
qed

lemma deleteProject_no_hit:
  assumes "filter (\<lambda>q. project_id q = pid \<and> userId q = uid) (projects d) = []"
  shows "deleteProject pid uid d = (False, d)"
proof -
  have "filter (\<lambda>p. \<not> (project_id p = pid \<and> userId p = uid)) (projects d) = projects d"
    using assms by (auto simp: filter_empty_conv filter_id_conv)
  then show ?thesis using assms by (simp add: deleteProject_def Let_def)
qed

lemma finish_Inr: "finish is v = Inr a \<longleftrightarrow> is = [] \<and> v = Some a"
  by (auto simp: finish_def split: list.splits option.splits)

lemma z_status_value: "z_status v = (is, Some s) \<Longrightarrow> s \<in> set status_values"
  by (auto simp: z_status_def split: jsval.splits if_splits)

lemma projectSchema_parse_status:
  assumes "projectSchema_parse x b = Inr v"
  shows "pd_status v \<in> set status_values"
proof -
  obtain i1 vn where z1: "z_string (b ''name'') (project_name_checks x) = (i1, vn)" by force
  obtain i2 vd where z2: "z_description (b ''description'') = (i2, vd)" by force
  obtain i3 vs where z3: "z_status (b ''status'') = (i3, vs)" by force
  obtain i4 vt where z4: "z_string (b ''startDate'') (project_startDate_checks x) = (i4, vt)"
    by force
  from assms have "(case (vn, vd, vs, vt) of
      (Some n, Some de, Some s, Some t) \<Rightarrow>
        Some \<lparr>pd_name = n, pd_description = de, pd_status = s, pd_startDate = t\<rparr>
    | _ \<Rightarrow> None) = Some v"
    by (simp add: projectSchema_parse_def z1 z2 z3 z4 finish_Inr)
  then have "vs = Some (pd_status v)"
    by (auto split: option.splits)
  with z3 show ?thesis by (simp add: z_status_value)
qed

lemma valid_statuses_protected:
  assumes "\<And>u. valid_statuses (snd (h u d))" and "valid_statuses d"
  shows "valid_statuses (snd (protected x e q h d))"
  using assms by (simp add: protected_def split: auth_result.splits)

lemma valid_statuses_users [simp]: "valid_statuses (d\<lparr>users := us\<rparr>) = valid_statuses d"
  by (simp add: valid_statuses_def)

lemma valid_statuses_register:
  "valid_statuses d \<Longrightarrow> valid_statuses (snd (post_auth_register x e q d))"
  by (auto simp: post_auth_register_def createUser_def Let_def
           split: sum.splits option.splits if_splits)

lemma valid_statuses_login:
  "valid_statuses d \<Longrightarrow> valid_statuses (snd (post_auth_login x e q d))"
  by (simp add: post_auth_login_def split: sum.splits option.splits)

lemma valid_statuses_post_projects:
  assumes "valid_statuses d"
  shows "valid_statuses (snd (post_projects x e q u d))"
proof (cases "projectSchema_parse x (body q)")
  case (Inl f)
  then show ?thesis using assms by (simp add: post_projects_def)
next
  case (Inr v)
  have "pd_status v \<in> set status_values" by (rule projectSchema_parse_status [OF Inr])
  then show ?thesis using assms Inr
    by (auto simp: post_projects_def createProject_def valid_statuses_def Let_def
             split: option.splits sum.splits if_splits)
qed

lemma valid_statuses_put_project:
  assumes "valid_statuses d"
  shows "valid_statuses (snd (put_project x e q u d))"
proof (cases "projectSchema_parse x (body q)")
  case (Inl f)
  then show ?thesis using assms by (simp add: put_project_def)
next
  case (Inr v)
  have "pd_status v \<in> set status_values" by (rule projectSchema_parse_status [OF Inr])
  then show ?thesis using assms Inr
    by (auto simp: put_project_def updateProject_def valid_statuses_def Let_def set_columns_def
             split: option.splits)
qed

lemma valid_statuses_delete_project:
  "valid_statuses d \<Longrightarrow> valid_statuses (snd (delete_project q u d))"
  by (simp add: delete_project_def deleteProject_def valid_statuses_def Let_def)

lemma valid_statuses_handle:
  assumes "valid_statuses d"
  shows "valid_statuses (snd (handle x e r q d))"
proof (cases r)
  case POST_auth_register
  then show ?thesis using assms by (simp add: valid_statuses_register)
next
  case POST_auth_login
  then show ?thesis using assms by (simp add: valid_statuses_login)
next
  case GET_auth_user
  then show ?thesis using assms
    by (simp add: valid_statuses_protected get_auth_user_def split: option.splits)
next
  case GET_projects
  then show ?thesis using assms by (simp add: valid_statuses_protected get_projects_def)
next
  case GET_projects_stats
  then show ?thesis using assms
    by (simp add: valid_statuses_protected get_projects_stats_def Let_def)
next
  case POST_projects
  then show ?thesis using assms
    by (simp add: valid_statuses_protected valid_statuses_post_projects)
next
  case GET_project
  then show ?thesis using assms
    by (simp add: valid_statuses_protected get_project_def split: option.splits)
next
  case PUT_project
  then show ?thesis using assms
    by (simp add: valid_statuses_protected valid_statuses_put_project)
next
  case DELETE_project
  then show ?thesis using assms
    by (simp add: valid_statuses_protected valid_statuses_delete_project)
qed

lemma reachable_valid_statuses: "reachable x d \<Longrightarrow> valid_statuses d"
proof (induction rule: reachable.induct)
  case start
  show ?case by (simp add: valid_statuses_def empty_db_def)
next
  case (request d e r q)
  then show ?case by (simp add: valid_statuses_handle)
qed

lemma three_way_count:
  assumes "\<forall>p \<in> set ps. status p \<in> set status_values"
  shows "length ps = length (filter (\<lambda>p. status p = ''pendente'') ps)
                   + length (filter (\<lambda>p. status p = ''andamento'') ps)
                   + length (filter (\<lambda>p. status p = ''concluido'') ps)"
  using assms by (induction ps) (auto simp: status_values_def)

lemma example_ext_simps:
  "shared_schema example_ext = Part_001"
  "process_env_JWT_SECRET example_ext = None"
  "jwt_sign example_ext c k ttl t = k @ ''|'' @ claim_userId c @ ''|'' @ claim_email c"
  "jwt_verify example_ext s k t =
     (case split (CHR ''|'') s of
        [k', i, m] \<Rightarrow> if k' = k then Some \<lparr>claim_userId = i, claim_email = m\<rparr> else None
      | _ \<Rightarrow> None)"
  "bcrypt_hash example_ext p rounds sa = sa @ ''$'' @ p"
  "bcrypt_compare example_ext p h =
     (case split (CHR ''$'') h of [sa, p'] \<Rightarrow> p' = p | _ \<Rightarrow> False)"
  "is_email example_ext s = (CHR ''@'' \<in> set s)"
  "Date_parse example_ext s = (if s = ''2025-01-01'' then Some 1735689600000 else None)"
  "zod_message example_ext i = ''Required''"
  by (simp_all add: example_ext_def)

lemma registerSchema_parse_ana:
  "registerSchema_parse example_ext body_ana
     = Inr \<lparr>rd_name = ''Ana'', rd_email = ''ana@x.com'', rd_password = ''secret1'',
            rd_confirmPassword = ''secret1''\<rparr>"
  by (simp add: registerSchema_parse_def body_ana_def body_of_def z_string_def z_min_def schema_checks
        example_ext_simps finish_def)

lemma register_ana_run:
  "post_auth_register example_ext env_ana register_ana empty_db
     = (\<lparr>res_status = 201,
         res_body = Some (JObject [(''token'', JString token_ana),
                                   (''user'', JObject [(''id'', JString uuid_ana),
                                                       (''name'', JString ''Ana''),
                                                       (''email'', JString ''ana@x.com'')])])\<rparr>,
        \<lparr>users = [ana], projects = []\<rparr>)"
  by (simp add: post_auth_register_def register_ana_def registerSchema_parse_ana
        getUserByEmail_def first_row_def empty_db_def createUser_def example_ext_simps
        env_ana_def ana_def issue_token_def JWT_SECRET_def token_ana_def Let_def)

lemma db_ana_eq: "db_ana = \<lparr>users = [ana], projects = []\<rparr>"
  by (simp add: db_ana_def register_ana_run)

lemma auth_create_site:
  "authenticateToken example_ext (authorization create_site) now = Next claims_ana"
  by (simp add: authenticateToken_def header_token_def create_site_def token_ana_def
        uuid_ana_def example_ext_simps JWT_SECRET_def claims_ana_def)

lemma projectSchema_parse_site:
  "projectSchema_parse example_ext body_site
     = Inr \<lparr>pd_name = ''Site'', pd_description = None, pd_status = ''pendente'',
            pd_startDate = ''2025-01-01''\<rparr>"
  by (simp add: projectSchema_parse_def body_site_def body_of_def z_string_def z_status_def
        z_description_def status_values_def z_min_def schema_checks finish_def example_ext_simps)

lemma create_site_run:
  "post_projects example_ext env_site create_site claims_ana \<lparr>users = [ana], projects = []\<rparr>
     = (\<lparr>res_status = 201, res_body = Some (project_json site)\<rparr>,
        \<lparr>users = [ana], projects = [site]\<rparr>)"
  by (simp add: post_projects_def create_site_def projectSchema_parse_site createProject_def
        env_site_def site_def ana_def example_ext_simps claims_ana_def Let_def)

lemma db_site_eq: "db_site = \<lparr>users = [ana], projects = [site]\<rparr>"
  by (simp add: db_site_def db_ana_eq protected_def auth_create_site create_site_run)

lemma constraints_db_two: "constraints db_two"
  by (simp add: constraints_def db_two_def ana_def bia_def site_def uuid_ana_def uuid_bia_def)

lemma set_columns_fields:
  "set_columns up now p =
     \<lparr>project_id = project_id p,
      project_name = (case up_name up of None \<Rightarrow> project_name p | Some n \<Rightarrow> n),
      description = (case up_description up of None \<Rightarrow> description p | Some v \<Rightarrow> v),
      status = (case up_status up of None \<Rightarrow> status p | Some s \<Rightarrow> s),
      startDate = (case up_startDate up of None \<Rightarrow> startDate p | Some t \<Rightarrow> t),
      userId = userId p, createdAt = createdAt p, updatedAt = now\<rparr>"
  by (simp add: set_columns_def)

lemma first_row_Some: "first_row xs = Some r \<Longrightarrow> \<exists>rest. xs = r # rest"
  by (cases xs) (simp_all add: first_row_def)

lemma getProject_SomeD:
  assumes "getProject d pid uid = Some p"
  shows "p \<in> set (projects d) \<and> project_id p = pid \<and> userId p = uid"
proof -
  from assms obtain rest
    where "filter (\<lambda>q. project_id q = pid \<and> userId q = uid) (projects d) = p # rest"
    unfolding getProject_def by (blast dest: first_row_Some)
  then have "p \<in> set (filter (\<lambda>q. project_id q = pid \<and> userId q = uid) (projects d))"
    by simp
  then show ?thesis by simp
qed

lemma filter_unique_row:
  assumes "distinct (map project_id ps)" "p \<in> set ps"
  shows "filter (\<lambda>q. project_id q = project_id p \<and> userId q = userId p) ps = [p]"
  using assms
proof (induction ps)
  case Nil
  then show ?case by simp
next
  case (Cons a ps)
  show ?case
  proof (cases "a = p")
    case True
    have "project_id p \<notin> project_id ` set ps"
      using Cons.prems(1) True by simp
    then have "\<forall>q \<in> set ps. project_id q \<noteq> project_id p"
      by (metis imageI)
    then have "filter (\<lambda>q. project_id q = project_id p \<and> userId q = userId p) ps = []"
      by (auto simp: filter_empty_conv)
    with True show ?thesis by simp
  next
    case False
    then have "p \<in> set ps" using Cons.prems(2) by simp
    moreover have "distinct (map project_id ps)" using Cons.prems(1) by simp
    ultimately have ih: "filter (\<lambda>q. project_id q = project_id p \<and> userId q = userId p) ps = [p]"
      by (rule Cons.IH [rotated])
    have "project_id a \<notin> project_id ` set ps"
      using Cons.prems(1) by simp
    then have "project_id a \<noteq> project_id p"
      using \<open>p \<in> set ps\<close> by (metis imageI)
    with ih show ?thesis by simp
  qed
qed

lemma hit_after_delete:
  "filter (\<lambda>r. project_id r = pid \<and> userId r = uid)
     (filter (\<lambda>r. \<not> (project_id r = pid \<and> userId r = uid)) ps) = []"
  by (simp add: filter_empty_conv)

lemma deleteProject_hit:
  assumes "p \<in> set (projects d)"
  shows "deleteProject (project_id p) (userId p) d
     = (True, d\<lparr>projects := filter (\<lambda>r. \<not> (project_id r = project_id p \<and> userId r = userId p))
                                 (projects d)\<rparr>)"
proof -
  have "filter (\<lambda>r. project_id r = project_id p \<and> userId r = userId p) (projects d) \<noteq> []"
    using assms by (auto simp: filter_empty_conv)
  then show ?thesis by (simp add: deleteProject_def Let_def)
qed

lemma auth_delete_site:
  "authenticateToken example_ext (authorization delete_site) now = Next claims_ana"
  by (simp add: authenticateToken_def header_token_def delete_site_def token_ana_def
        uuid_ana_def example_ext_simps JWT_SECRET_def claims_ana_def)

lemma split_no_separator: "c \<notin> set s \<Longrightarrow> split c s = [s]"
  by (induction s) auto

lemma split_at_first: "c \<notin> set a \<Longrightarrow> split c (a @ c # b) = a # split c b"
  by (induction a) auto

lemma header_token_Bearer:
  assumes "CHR '' '' \<notin> set t"
  shows "header_token (Some (''Bearer '' @ t)) = Some t"
proof -
  have "split (CHR '' '') (''Bearer'' @ CHR '' '' # t) = ''Bearer'' # split (CHR '' '') t"
    by (rule split_at_first) simp
  then show ?thesis
    using assms by (simp add: header_token_def split_no_separator)
qed

lemma z_string_value: "z_string v checks = (is, Some s) \<Longrightarrow> v = Str s"
  by (auto simp: z_string_def split: jsval.splits)

lemma z_string_no_value: "z_string v checks = (is, None) \<Longrightarrow> is \<noteq> []"
  by (auto simp: z_string_def split: jsval.splits)

lemma loginSchema_parse_fields:
  assumes "loginSchema_parse x b = Inr v"
  shows "b ''email'' = Str (ld_email v) \<and> b ''password'' = Str (ld_password v)"
proof -
  obtain ie ve where z1: "z_string (b ''email'') (login_email_checks x) = (ie, ve)" by force
  obtain ip vp where z2: "z_string (b ''password'') (password_checks x) = (ip, vp)"
    by force
  from assms have "(case (ve, vp) of
        (Some e, Some p) \<Rightarrow> Some \<lparr>ld_email = e, ld_password = p\<rparr> | _ \<Rightarrow> None) = Some v"
    by (simp add: loginSchema_parse_def z1 z2 finish_Inr)
  then have "ve = Some (ld_email v) \<and> vp = Some (ld_password v)"
    by (auto split: option.splits)
  with z1 z2 show ?thesis by (auto dest: z_string_value)
qed

lemma finish_failure:
  "finish is v = Inl f \<Longrightarrow> is \<noteq> [] \<or> v \<noteq> None \<Longrightarrow> \<exists>i rest. f = ZodError i rest"
  by (auto simp: finish_def split: list.splits option.splits)

lemma loginSchema_parse_failure:
  assumes "loginSchema_parse x b = Inl f"
  shows "\<exists>i rest. f = ZodError i rest"
proof -
  obtain ie ve where z1: "z_string (b ''email'') (login_email_checks x) = (ie, ve)" by force
  obtain ip vp where z2: "z_string (b ''password'') (password_checks x) = (ip, vp)"
    by force
  let ?v = "case (ve, vp) of
              (Some e, Some p) \<Rightarrow> Some \<lparr>ld_email = e, ld_password = p\<rparr> | _ \<Rightarrow> None"
  from assms have f: "finish (ie @ ip) ?v = Inl f"
    by (simp add: loginSchema_parse_def z1 z2)
  have "ie @ ip \<noteq> [] \<or> ?v \<noteq> None"
    using z1 z2 by (auto dest: z_string_no_value split: option.splits)
  from finish_failure [OF f this] show ?thesis .
qed

lemma z_status_no_value: "z_status v = (is, None) \<Longrightarrow> is \<noteq> []"
  by (auto simp: z_status_def split: jsval.splits if_splits)

lemma z_description_no_value: "z_description v = (is, None) \<Longrightarrow> is \<noteq> []"
  by (auto simp: z_description_def split: jsval.splits)

lemma projectSchema_parse_failure:
  assumes "projectSchema_parse x b = Inl f"
  shows "\<exists>i rest. f = ZodError i rest"
proof -
  obtain i1 vn where z1: "z_string (b ''name'') (project_name_checks x) = (i1, vn)" by force
  obtain i2 vd where z2: "z_description (b ''description'') = (i2, vd)" by force
  obtain i3 vs where z3: "z_status (b ''status'') = (i3, vs)" by force
  obtain i4 vt where z4: "z_string (b ''startDate'') (project_startDate_checks x) = (i4, vt)"
    by force
  let ?v = "case (vn, vd, vs, vt) of
              (Some n, Some de, Some s, Some t) \<Rightarrow>
                Some \<lparr>pd_name = n, pd_description = de, pd_status = s, pd_startDate = t\<rparr>
            | _ \<Rightarrow> None"
  from assms have f: "finish (i1 @ i2 @ i3 @ i4) ?v = Inl f"
    by (simp add: projectSchema_parse_def z1 z2 z3 z4)
  have "i1 @ i2 @ i3 @ i4 \<noteq> [] \<or> ?v \<noteq> None"
    using z1 z2 z3 z4
    by (auto dest: z_string_no_value z_status_no_value z_description_no_value
             split: option.splits)
  from finish_failure [OF f this] show ?thesis .
qed

lemma login_invalid:
  assumes "loginSchema_parse x (body q) = Inl f"
  shows "\<exists>i. post_auth_login x e q d = (json_message 400 (issue_message x i), d)"
proof -
  from loginSchema_parse_failure [OF assms] obtain i rest where "f = ZodError i rest"
    by blast
  with assms show ?thesis
    by (auto simp: post_auth_login_def on_parse_error_def)
qed

lemma loginSchema_parse_ghost:
  "loginSchema_parse example_ext (body login_ghost)
     = Inl (ZodError (Custom msg_senha_curta) [])"
  by (simp add: loginSchema_parse_def login_ghost_def body_of_def z_string_def z_min_def schema_checks
        finish_def example_ext_simps)

lemma loginSchema_parse_ana_short:
  "loginSchema_parse example_ext (body login_ana_short)
     = Inl (ZodError (Custom msg_senha_curta) [])"
  by (simp add: loginSchema_parse_def login_ana_short_def body_of_def z_string_def z_min_def schema_checks
        finish_def example_ext_simps)

lemma loginSchema_parse_ana_wrong:
  "loginSchema_parse example_ext (body login_ana_wrong)
     = Inr \<lparr>ld_email = ''ana@x.com'', ld_password = ''secret2''\<rparr>"
  by (simp add: loginSchema_parse_def login_ana_wrong_def body_of_def z_string_def z_min_def schema_checks
        finish_def example_ext_simps)

lemma getUserByEmail_None: "getUserByEmail d em = None \<longleftrightarrow> em \<notin> email ` set (users d)"
  by (auto simp: getUserByEmail_def filter_empty_conv)

lemma registerSchema_parse_email:
  assumes "registerSchema_parse x b = Inr v"
  shows "b ''email'' = Str (rd_email v)"
proof -
  obtain i1 vn where z1: "z_string (b ''name'') (register_name_checks x) = (i1, vn)" by force
  obtain i2 ve where z2: "z_string (b ''email'') (register_email_checks x) = (i2, ve)" by force
  obtain i3 vp where z3: "z_string (b ''password'') (password_checks x) = (i3, vp)"
    by force
  obtain i4 vc where z4: "z_string (b ''confirmPassword'') (register_confirm_checks x) = (i4, vc)"
    by force
  from assms have "ve = Some (rd_email v)"
    by (auto simp: registerSchema_parse_def z1 z2 z3 z4 finish_Inr split: option.splits)
  with z2 show ?thesis by (simp add: z_string_value)
qed

lemma finish_issue: "is \<noteq> [] \<Longrightarrow> \<exists>i rest. finish is v = Inl (ZodError i rest)"
  by (cases "is") (simp_all add: finish_def)

lemma registerSchema_parse_failure:
  assumes "registerSchema_parse x b = Inl f"
  shows "\<exists>i rest. f = ZodError i rest"
proof -
  obtain i1 vn where z1: "z_string (b ''name'') (register_name_checks x) = (i1, vn)" by force
  obtain i2 ve where z2: "z_string (b ''email'') (register_email_checks x) = (i2, ve)" by force
  obtain i3 vp where z3: "z_string (b ''password'') (password_checks x) = (i3, vp)"
    by force
  obtain i4 vc where z4: "z_string (b ''confirmPassword'') (register_confirm_checks x) = (i4, vc)"
    by force
  show ?thesis
  proof (cases "vn = None \<or> ve = None \<or> vp = None \<or> vc = None")
    case True
    then have "i1 @ i2 @ i3 @ i4 \<noteq> []"
      using z1 z2 z3 z4 by (auto dest: z_string_no_value)
    from finish_issue [OF this, of "None :: registerData option"] True assms show ?thesis
      by (auto simp: registerSchema_parse_def z1 z2 z3 z4 split: option.splits)
  next
    case False
    then obtain n e p c where "vn = Some n" "ve = Some e" "vp = Some p" "vc = Some c"
      by auto
    with assms show ?thesis
      by (auto simp: registerSchema_parse_def z1 z2 z3 z4 finish_def split: list.splits)
  qed
qed

lemma register_invalid:
  assumes "registerSchema_parse x (body q) = Inl f"
  shows "\<exists>i. post_auth_register x e q d = (json_message 400 (issue_message x i), d)"
proof -
  from registerSchema_parse_failure [OF assms] obtain i rest where "f = ZodError i rest"
    by blast
  with assms show ?thesis
    by (auto simp: post_auth_register_def on_parse_error_def)
qed

lemma register_created:
  assumes "post_auth_register x e q d = (r, d')" and "res_status r = 201"
  shows "\<exists>v u. registerSchema_parse x (body q) = Inr v \<and> email u = rd_email v
           \<and> user_id u = random_uuid e \<and> user_name u = rd_name v
           \<and> getUserByEmail d (rd_email v) = None
           \<and> users d' = users d @ [u] \<and> projects d' = projects d
           \<and> res_body r = Some (JObject
                 [(''token'', JString (issue_token x e u)),
                  (''user'', JObject [(''id'', JString (user_id u)),
                                      (''name'', JString (user_name u)),
                                      (''email'', JString (email u))])])"
proof (cases "registerSchema_parse x (body q)")
  case (Inl f)
  from register_invalid [OF Inl, of e d] assms show ?thesis
    by (auto simp: json_message_def)
next
  case (Inr v)
  show ?thesis
  proof (cases "getUserByEmail d (rd_email v)")
    case (Some existing)
    with Inr assms show ?thesis
      by (auto simp: post_auth_register_def json_message_def)
  next
    case None
    with Inr assms show ?thesis
      by (auto simp: post_auth_register_def createUser_def json_message_def Let_def
               split: if_splits)
  qed
qed

lemma users_grow_register:
  "\<exists>more. users (snd (post_auth_register x e q d)) = users d @ more"
  by (auto simp: post_auth_register_def createUser_def Let_def
           split: sum.splits option.splits if_splits)

lemma users_same_protected:
  assumes "\<And>u. users (snd (h u d)) = users d"
  shows "users (snd (protected x e q h d)) = users d"
  using assms by (simp add: protected_def split: auth_result.splits)

lemma users_grow_handle: "\<exists>more. users (snd (handle x e r q d)) = users d @ more"
proof (cases r)
  case POST_auth_register
  then show ?thesis by (simp add: users_grow_register)
next
  case POST_auth_login
  then show ?thesis by (simp add: post_auth_login_def split: sum.splits option.splits)
next
  case GET_auth_user
  then show ?thesis
    by (simp add: users_same_protected get_auth_user_def split: option.splits)
next
  case GET_projects
  then show ?thesis by (simp add: users_same_protected get_projects_def)
next
  case GET_projects_stats
  then show ?thesis by (simp add: users_same_protected get_projects_stats_def Let_def)
next
  case POST_projects
  have "\<And>u. users (snd (post_projects x e q u d)) = users d"
    by (auto simp: post_projects_def createProject_def Let_def
             split: sum.splits option.splits if_splits)
  with POST_projects show ?thesis by (simp add: users_same_protected)
next
  case GET_project
  then show ?thesis
    by (simp add: users_same_protected get_project_def split: option.splits)
next
  case PUT_project
  have "\<And>u. users (snd (put_project x e q u d)) = users d"
    by (auto simp: put_project_def updateProject_def Let_def
             split: sum.splits option.splits)
  with PUT_project show ?thesis by (simp add: users_same_protected)
next
  case DELETE_project
  then show ?thesis
    by (simp add: users_same_protected delete_project_def deleteProject_def Let_def)
qed

lemma runs_users_grow: "runs x d d' \<Longrightarrow> \<exists>more. users d' = users d @ more"
proof (induction rule: runs.induct)
  case here
  show ?case by simp
next
  case (later d' e r q)
  then obtain m1 where "users d' = users d @ m1" by blast
  moreover obtain m2 where "users (snd (handle x e r q d')) = users d' @ m2"
    using users_grow_handle by blast
  ultimately show ?case by simp
qed

lemma registerSchema_parse_ana_short:
  "registerSchema_parse example_ext (body register_ana_short)
     = Inl (ZodError (Custom msg_senha_curta) [])"
  by (simp add: registerSchema_parse_def register_ana_short_def body_of_def z_string_def
        z_min_def schema_checks example_ext_simps finish_def)






lemma keys_message [simp]: "response_keys (json_message c m) = {''message''}"
  by (simp add: response_keys_def json_message_def)

lemma keys_record [simp]:
  "response_keys \<lparr>res_status = c, res_body = Some j\<rparr> = json_keys j"
  "response_keys \<lparr>res_status = c, res_body = None\<rparr> = {}"
  by (simp_all add: response_keys_def)


lemma keys_on_parse_error [simp]: "response_keys (on_parse_error x m f) = {''message''}"
  by (simp add: on_parse_error_def split: zod_failure.splits)





lemma login_ana_run:
  "post_auth_login example_ext env_later login_ana db_ana
     = (\<lparr>res_status = 200,
         res_body = Some (JObject [(''token'', JString token_ana),
                                   (''user'', JObject [(''id'', JString uuid_ana),
                                                       (''name'', JString ''Ana''),
                                                       (''email'', JString ''ana@x.com'')])])\<rparr>,
        db_ana)"
proof -
  have p: "loginSchema_parse example_ext (body login_ana)
      = Inr \<lparr>ld_email = ''ana@x.com'', ld_password = ''secret1''\<rparr>"
    by (simp add: loginSchema_parse_def login_ana_def body_of_def z_string_def z_min_def schema_checks
          finish_def example_ext_simps)
  have g: "getUserByEmail db_ana ''ana@x.com'' = Some ana"
    by (simp add: getUserByEmail_def db_ana_eq ana_def first_row_def)
  have c: "bcrypt_compare example_ext ''secret1'' (password ana)"
    by (simp add: example_ext_simps ana_def)
  have t: "issue_token example_ext env_later ana = token_ana"
    by (simp add: issue_token_def example_ext_simps JWT_SECRET_def ana_def token_ana_def)
  show ?thesis
    by (simp add: post_auth_login_def p g c t) (simp add: ana_def)
qed



text \<open>Every reachable state satisfies the constraints of the schema.\<close>

lemma constraints_protected:
  assumes "\<And>u. constraints (snd (h u d))" and "constraints d"
  shows "constraints (snd (protected x e q h d))"
  using assms by (simp add: protected_def split: auth_result.splits)

lemma constraints_createUser:
  assumes "constraints d" and "createUser iu i t d = Inr (u, d')"
  shows "constraints d'"
  using assms
  by (auto simp: constraints_def createUser_def Let_def split: if_splits)

lemma constraints_register:
  assumes "constraints d"
  shows "constraints (snd (post_auth_register x e q d))"
  using assms
  by (auto simp: post_auth_register_def Let_def dest: constraints_createUser
           split: sum.splits option.splits)

lemma constraints_login:
  "constraints d \<Longrightarrow> constraints (snd (post_auth_login x e q d))"
  by (simp add: post_auth_login_def split: sum.splits option.splits)

lemma constraints_createProject:
  assumes "constraints d" and "createProject ip i t d = Inr (p, d')"
  shows "constraints d'"
  using assms
  by (auto simp: constraints_def createProject_def Let_def split: if_splits)

lemma constraints_post_projects:
  assumes "constraints d"
  shows "constraints (snd (post_projects x e q u d))"
  using assms
  by (auto simp: post_projects_def dest: constraints_createProject
           split: sum.splits option.splits)

lemma set_columns_keys [simp]:
  "project_id (set_columns up t p) = project_id p" "userId (set_columns up t p) = userId p"
  by (simp_all add: set_columns_def)

lemma map_same_key:
  assumes "\<And>p. k (f p) = k p"
  shows "map k (map f ps) = map k ps"
  using assms by (induction ps) simp_all

lemma constraints_updateProject:
  assumes "constraints d"
  shows "constraints (snd (updateProject pid uid up t d))"
proof -
  let ?f = "\<lambda>p. if project_id p = pid \<and> userId p = uid then set_columns up t p else p"
  have ids: "map project_id (map ?f (projects d)) = map project_id (projects d)"
    by (rule map_same_key) simp
  have owners: "map userId (map ?f (projects d)) = map userId (projects d)"
    by (rule map_same_key) simp
  have 1: "distinct (map project_id (map ?f (projects d)))"
    unfolding ids using assms by (simp add: constraints_def)
  have "set (map userId (map ?f (projects d))) \<subseteq> set (map user_id (users d))"
    unfolding owners using assms by (auto simp: constraints_def)
  then have 2: "\<forall>p \<in> set (map ?f (projects d)). userId p \<in> set (map user_id (users d))"
    by auto
  have 3: "distinct (map user_id (users d)) \<and> distinct (map email (users d))"
    using assms by (simp add: constraints_def)
  from 1 2 3 show ?thesis
    by (simp add: constraints_def updateProject_def Let_def)
qed

lemma constraints_put_project:
  assumes "constraints d"
  shows "constraints (snd (put_project x e q u d))"
proof (cases "projectSchema_parse x (body q)")
  case (Inl f)
  then show ?thesis using assms by (simp add: put_project_def)
next
  case (Inr v)
  show ?thesis
  proof (cases "Date_parse x (pd_startDate v)")
    case None
    with Inr assms show ?thesis by (simp add: put_project_def)
  next
    case (Some t)
    let ?up = "\<lparr>up_name = Some (pd_name v), up_description = pd_description v,
                 up_status = Some (pd_status v), up_startDate = Some t\<rparr>"
    have "snd (put_project x e q u d)
        = snd (updateProject (params_id q) (claim_userId u) ?up (js_now e) d)"
      using Inr Some by (simp add: put_project_def split: prod.splits option.splits)
    with constraints_updateProject [OF assms] show ?thesis by simp
  qed
qed

lemma constraints_delete_project:
  assumes "constraints d"
  shows "constraints (snd (delete_project q u d))"
  using assms
  by (auto simp: delete_project_def deleteProject_def constraints_def Let_def distinct_map_filter)

lemma constraints_handle:
  assumes "constraints d"
  shows "constraints (snd (handle x e r q d))"
proof (cases r)
  case POST_auth_register
  then show ?thesis using assms by (simp add: constraints_register)
next
  case POST_auth_login
  then show ?thesis using assms by (simp add: constraints_login)
next
  case GET_auth_user
  then show ?thesis using assms
    by (simp add: constraints_protected get_auth_user_def split: option.splits)
next
  case GET_projects
  then show ?thesis using assms by (simp add: constraints_protected get_projects_def)
next
  case GET_projects_stats
  then show ?thesis using assms
    by (simp add: constraints_protected get_projects_stats_def Let_def)
next
  case POST_projects
  then show ?thesis using assms
    by (simp add: constraints_protected constraints_post_projects)
next
  case GET_project
  then show ?thesis using assms
    by (simp add: constraints_protected get_project_def split: option.splits)
next
  case PUT_project
  then show ?thesis using assms
    by (simp add: constraints_protected constraints_put_project)
next
  case DELETE_project
  then show ?thesis using assms
    by (simp add: constraints_protected constraints_delete_project)
qed

lemma reachable_constraints: "reachable x d \<Longrightarrow> constraints d"
proof (induction rule: reachable.induct)
  case start
  show ?case by (simp add: constraints_def empty_db_def)
next
  case (request d e r q)
  then show ?case by (simp add: constraints_handle)
qed





lemma checks_hash_irrelevant [simp]:
  "login_email_checks (x\<lparr>bcrypt_hash := h\<rparr>) = login_email_checks x"
  "password_checks (x\<lparr>bcrypt_hash := h\<rparr>) = password_checks x"
  "register_name_checks (x\<lparr>bcrypt_hash := h\<rparr>) = register_name_checks x"
  "register_email_checks (x\<lparr>bcrypt_hash := h\<rparr>) = register_email_checks x"
  "register_confirm_checks (x\<lparr>bcrypt_hash := h\<rparr>) = register_confirm_checks x"
  "project_name_checks (x\<lparr>bcrypt_hash := h\<rparr>) = project_name_checks x"
  "project_startDate_checks (x\<lparr>bcrypt_hash := h\<rparr>) = project_startDate_checks x"
  by (rule ext, simp add: schema_checks split: schema_copy.splits)+

lemma hash_irrelevant [simp]:
  "loginSchema_parse (x\<lparr>bcrypt_hash := h\<rparr>) b = loginSchema_parse x b"
  "registerSchema_parse (x\<lparr>bcrypt_hash := h\<rparr>) b = registerSchema_parse x b"
  "projectSchema_parse (x\<lparr>bcrypt_hash := h\<rparr>) b = projectSchema_parse x b"
  "on_parse_error (x\<lparr>bcrypt_hash := h\<rparr>) m f = on_parse_error x m f"
  "issue_token (x\<lparr>bcrypt_hash := h\<rparr>) e u = issue_token x e u"
  "authenticateToken (x\<lparr>bcrypt_hash := h\<rparr>) a t = authenticateToken x a t"
  by (simp_all add: loginSchema_parse_def registerSchema_parse_def projectSchema_parse_def
        on_parse_error_def issue_message_def issue_token_def authenticateToken_def
      split: zod_failure.splits zod_issue.splits option.splits)





lemma same_public_projects:
  assumes "same_public d d'"
  shows "same_public (d\<lparr>projects := ps\<rparr>) (d'\<lparr>projects := ps\<rparr>)"
  using assms by (simp add: same_public_def)







lemma example_ext_000_simps:
  "shared_schema example_ext_000 = Part_000"
  "process_env_JWT_SECRET example_ext_000 = None"
  "jwt_sign example_ext_000 = jwt_sign example_ext"
  "jwt_verify example_ext_000 = jwt_verify example_ext"
  "bcrypt_hash example_ext_000 = bcrypt_hash example_ext"
  "bcrypt_compare example_ext_000 = bcrypt_compare example_ext"
  "is_email example_ext_000 = is_email example_ext"
  "Date_parse example_ext_000 = Date_parse example_ext"
  "zod_message example_ext_000 = zod_message example_ext"
  by (simp_all add: example_ext_000_def example_ext_simps)

lemma loginSchema_parse_ghost_000:
  "loginSchema_parse example_ext_000 (body login_ghost)
     = Inl (ZodError (Custom msg_senha_curta) [])"
  by (simp add: loginSchema_parse_def login_ghost_def body_of_def z_string_def z_min_def
        schema_checks finish_def example_ext_000_simps example_ext_simps)

lemma loginSchema_parse_ana_short_000:
  "loginSchema_parse example_ext_000 (body login_ana_short)
     = Inl (ZodError (Custom msg_senha_curta) [])"
  by (simp add: loginSchema_parse_def login_ana_short_def body_of_def z_string_def z_min_def
        schema_checks finish_def example_ext_000_simps example_ext_simps)

lemma registerSchema_parse_ana_000:
  "registerSchema_parse example_ext_000 body_ana
     = Inr \<lparr>rd_name = ''Ana'', rd_email = ''ana@x.com'', rd_password = ''secret1'',
            rd_confirmPassword = ''secret1''\<rparr>"
  by (simp add: registerSchema_parse_def body_ana_def body_of_def z_string_def z_min_def
        schema_checks example_ext_000_simps finish_def)

lemma register_ana_run_000:
  "post_auth_register example_ext_000 env_ana register_ana empty_db
     = (\<lparr>res_status = 201,
         res_body = Some (JObject [(''token'', JString token_ana),
                                   (''user'', JObject [(''id'', JString uuid_ana),
                                                       (''name'', JString ''Ana''),
                                                       (''email'', JString ''ana@x.com'')])])\<rparr>,
        \<lparr>users = [ana], projects = []\<rparr>)"
  by (simp add: post_auth_register_def register_ana_def registerSchema_parse_ana_000
        getUserByEmail_def first_row_def empty_db_def createUser_def example_ext_000_simps
        example_ext_simps env_ana_def ana_def issue_token_def JWT_SECRET_def token_ana_def
        Let_def)

lemma registerSchema_parse_ana_short_000:
  "registerSchema_parse example_ext_000 (body register_ana_short)
     = Inl (ZodError (Custom msg_senha_curta) [Custom msg_confirmacao])"
  by (simp add: registerSchema_parse_def register_ana_short_def body_of_def z_string_def
        z_min_def schema_checks example_ext_000_simps finish_def)

text \<open>
  Under the schema of \<^verbatim>\<open>part_001\<close> an empty name is refused before the e-mail is
  looked up; under that of \<^verbatim>\<open>part_000\<close> the same request reaches the lookup.
\<close>

lemma register_noname_runs:
  "post_auth_register example_ext env_later register_noname db_ana
     = (json_message 400 msg_nome_obrigatorio, db_ana)"
  "post_auth_register example_ext_000 env_later register_noname db_ana
     = (json_message 400 msg_email_em_uso, db_ana)"
proof -
  have p1: "registerSchema_parse example_ext (body register_noname)
      = Inl (ZodError (Custom msg_nome_obrigatorio) [Custom msg_nome_curto])"
    by (simp add: registerSchema_parse_def register_noname_def body_of_def z_string_def
          z_min_def schema_checks example_ext_simps finish_def)
  have p0: "registerSchema_parse example_ext_000 (body register_noname)
      = Inr \<lparr>rd_name = '''', rd_email = ''ana@x.com'', rd_password = ''secret1'',
             rd_confirmPassword = ''secret1''\<rparr>"
    by (simp add: registerSchema_parse_def register_noname_def body_of_def z_string_def
          z_min_def schema_checks example_ext_000_simps finish_def)
  have g: "getUserByEmail db_ana ''ana@x.com'' = Some ana"
    by (simp add: getUserByEmail_def db_ana_eq ana_def first_row_def)
  show "post_auth_register example_ext env_later register_noname db_ana
     = (json_message 400 msg_nome_obrigatorio, db_ana)"
    by (simp add: post_auth_register_def p1 on_parse_error_def issue_message_def)
  show "post_auth_register example_ext_000 env_later register_noname db_ana
     = (json_message 400 msg_email_em_uso, db_ana)"
    by (simp add: post_auth_register_def p0 g)
qed


section \<open>The claims\<close>

text \<open>
  Claim C8. For every owner, list-by-owner returns exactly the projects whose owner id
  equals that owner (each row once, none added), ordered by creation timestamp ascending.
\<close>

theorem getProjects_owner_sorted:
  "mset (getProjects d uid) = filter_mset (\<lambda>p. userId p = uid) (mset (projects d))
   \<and> sorted (map createdAt (getProjects d uid))"
  by (simp add: getProjects_def)

text \<open>
  Claim C1. Ownership isolation: in a database that satisfies the schema's constraints
  (every reachable state does), for a project owned by user a and any other user b, get
  and update with b's identity on the project's id return nothing, delete returns false,
  the routes answer 404, nothing is changed, and the project (or any row with its id) is
  not in the list of b's projects; the owner a does get it and finds it in the list.
\<close>

theorem ownership_isolation:
  assumes "constraints d" and "p \<in> set (projects d)" and "userId p = a" and "b \<noteq> a"
  shows "getProject d (project_id p) b = None
    \<and> updateProject (project_id p) b up now d = (None, d)
    \<and> deleteProject (project_id p) b d = (False, d)
    \<and> p \<notin> set (getProjects d b)
    \<and> project_id p \<notin> project_id ` set (getProjects d b)
    \<and> get_project \<lparr>authorization = h, body = bd, params_id = project_id p\<rparr>
          \<lparr>claim_userId = b, claim_email = em\<rparr> d
        = (json_message 404 msg_projeto_nao_encontrado, d)
    \<and> delete_project \<lparr>authorization = h, body = bd, params_id = project_id p\<rparr>
          \<lparr>claim_userId = b, claim_email = em\<rparr> d
        = (json_message 404 msg_projeto_nao_encontrado, d)
    \<and> getProject d (project_id p) a = Some p
    \<and> p \<in> set (getProjects d a)"
proof -
  have dist: "distinct (map project_id (projects d))"
    using assms(1) by (simp add: constraints_def)
  have other: "userId p \<noteq> b" using assms(3,4) by simp
  have none: "filter (\<lambda>q. project_id q = project_id p \<and> userId q = b) (projects d) = []"
    by (rule no_hit_other_owner [OF dist assms(2) other])
  have absent: "project_id p \<notin> project_id ` set (getProjects d b)"
  proof
    assume "project_id p \<in> project_id ` set (getProjects d b)"
    then obtain q where "q \<in> set (projects d)" "userId q = b" "project_id q = project_id p"
      by (auto simp: getProjects_def)
    then show False using none by (auto simp: filter_empty_conv)
  qed
  then have absent': "p \<notin> set (getProjects d b)" by blast
  have get: "getProject d (project_id p) b = None"
    using none by (simp add: getProject_def)
  have del: "deleteProject (project_id p) b d = (False, d)"
    by (rule deleteProject_no_hit [OF none])
  have upd: "updateProject (project_id p) b up now d = (None, d)"
    by (rule updateProject_no_hit [OF none])
  have own: "getProject d (project_id p) a = Some p"
    using filter_unique_row [OF dist assms(2)] assms(3) by (simp add: getProject_def first_row_def)
  have listed: "p \<in> set (getProjects d a)"
    using assms(2,3) by (simp add: getProjects_def)
  show ?thesis
    using get upd del absent absent' own listed
    by (simp add: get_project_def delete_project_def)
qed

theorem ownership_isolation_witness:
  "constraints db_two \<and> site \<in> set (projects db_two) \<and> userId site = uuid_ana
   \<and> uuid_bia \<noteq> uuid_ana
   \<and> getProject db_two (project_id site) uuid_bia = None
   \<and> updateProject (project_id site) uuid_bia rename_site 3000 db_two = (None, db_two)
   \<and> deleteProject (project_id site) uuid_bia db_two = (False, db_two)
   \<and> site \<notin> set (getProjects db_two uuid_bia)
   \<and> getProject db_two (project_id site) uuid_ana = Some site"
proof -
  have h1: "constraints db_two" by (rule constraints_db_two)
  have h2: "site \<in> set (projects db_two)" by (simp add: db_two_def)
  have h3: "userId site = uuid_ana" by (simp add: site_def)
  have h4: "uuid_bia \<noteq> uuid_ana" by (simp add: uuid_ana_def uuid_bia_def)
  show ?thesis
    using h1 h2 h3 h4 ownership_isolation [OF h1 h2 h3 h4, of rename_site 3000 None "body_of []" "''bia@x.com''"]
    by simp
qed

text \<open>
  Claim C2. In every state reached from the empty database by requests to the API, the
  statistics of any owner satisfy total = pendente + andamento + concluido; total counts
  the owner's projects and each other field those of that status.
\<close>

theorem stats_total_is_sum:
  assumes "reachable x d"
  shows "total (getProjectStats d uid)
           = pendente (getProjectStats d uid) + andamento (getProjectStats d uid)
             + concluido (getProjectStats d uid)
    \<and> total (getProjectStats d uid) = length (filter (\<lambda>p. userId p = uid) (projects d))
    \<and> pendente (getProjectStats d uid)
        = length (filter (\<lambda>p. userId p = uid \<and> status p = ''pendente'') (projects d))
    \<and> andamento (getProjectStats d uid)
        = length (filter (\<lambda>p. userId p = uid \<and> status p = ''andamento'') (projects d))
    \<and> concluido (getProjectStats d uid)
        = length (filter (\<lambda>p. userId p = uid \<and> status p = ''concluido'') (projects d))"
proof -
  let ?ps = "filter (\<lambda>p. userId p = uid) (projects d)"
  have "\<forall>p \<in> set ?ps. status p \<in> set status_values"
    using reachable_valid_statuses [OF assms] by (simp add: valid_statuses_def)
  from three_way_count [OF this] show ?thesis
    by (simp add: getProjectStats_def Let_def conj_commute)
qed

theorem stats_total_is_sum_witness:
  "reachable example_ext db_site
   \<and> total (getProjectStats db_site uuid_ana)
       = pendente (getProjectStats db_site uuid_ana) + andamento (getProjectStats db_site uuid_ana)
         + concluido (getProjectStats db_site uuid_ana)
   \<and> getProjectStats db_site uuid_ana = \<lparr>total = 1, pendente = 1, andamento = 0, concluido = 0\<rparr>"
proof -
  have r: "reachable example_ext db_site"
    unfolding db_site_def db_ana_def by (intro reachable.intros)
  have v: "getProjectStats db_site uuid_ana = \<lparr>total = 1, pendente = 1, andamento = 0, concluido = 0\<rparr>"
    by (simp add: db_site_eq getProjectStats_def site_def)
  show ?thesis using r v stats_total_is_sum [OF r, of uuid_ana] by simp
qed

text \<open>
  Claim C5. In a database that satisfies the schema's constraints, an update of a project
  that the id and owner select returns that project with exactly the supplied columns
  replaced and its update time set to the current time; its id, owner and creation time,
  every unsupplied column, every other project and the users are unchanged. If the pair
  selects no row, the update returns nothing and the database is unchanged.
\<close>

theorem updateProject_frame:
  assumes "constraints d"
  shows "updateProject pid uid up now d =
     (case getProject d pid uid of
        None \<Rightarrow> (None, d)
      | Some p \<Rightarrow>
          (let p' = \<lparr>project_id = project_id p,
                     project_name = (case up_name up of None \<Rightarrow> project_name p | Some n \<Rightarrow> n),
                     description = (case up_description up of None \<Rightarrow> description p | Some v \<Rightarrow> v),
                     status = (case up_status up of None \<Rightarrow> status p | Some s \<Rightarrow> s),
                     startDate = (case up_startDate up of None \<Rightarrow> startDate p | Some t \<Rightarrow> t),
                     userId = userId p, createdAt = createdAt p, updatedAt = now\<rparr>
           in (Some p', d\<lparr>projects := map (\<lambda>q. if q = p then p' else q) (projects d)\<rparr>)))"
proof (cases "getProject d pid uid")
  case None
  then have "filter (\<lambda>q. project_id q = pid \<and> userId q = uid) (projects d) = []"
    by (simp add: getProject_def)
  from updateProject_no_hit [OF this] None show ?thesis by simp
next
  case (Some p)
  have dist: "distinct (map project_id (projects d))"
    using assms by (simp add: constraints_def)
  from getProject_SomeD [OF Some]
  have p: "p \<in> set (projects d)" "project_id p = pid" "userId p = uid" by simp_all
  have one: "filter (\<lambda>q. project_id q = pid \<and> userId q = uid) (projects d) = [p]"
    using filter_unique_row [OF dist p(1)] p(2,3) by simp
  have hit: "\<And>q. q \<in> set (projects d) \<Longrightarrow> (project_id q = pid \<and> userId q = uid) = (q = p)"
  proof -
    fix q assume "q \<in> set (projects d)"
    then show "(project_id q = pid \<and> userId q = uid) = (q = p)"
      using same_id_same_row [OF dist p(1), of q] p(2,3) by auto
  qed
  have "map (\<lambda>q. if project_id q = pid \<and> userId q = uid then set_columns up now q else q) (projects d)
      = map (\<lambda>q. if q = p then set_columns up now p else q) (projects d)"
    by (rule map_cong) (auto simp: hit)
  then show ?thesis
    using Some one
    by (simp add: updateProject_def Let_def first_row_def set_columns_fields [symmetric])
qed


theorem updateProject_frame_witness:
  "constraints db_two
   \<and> updateProject uuid_site uuid_ana rename_site 3000 db_two
       = (Some (site\<lparr>project_name := ''Portal'', updatedAt := 3000\<rparr>),
          \<lparr>users = [ana, bia], projects = [site\<lparr>project_name := ''Portal'', updatedAt := 3000\<rparr>]\<rparr>)
   \<and> updateProject uuid_site uuid_bia rename_site 3000 db_two = (None, db_two)"
proof -
  have c: "constraints db_two" by (rule constraints_db_two)
  have g: "getProject db_two uuid_site uuid_ana = Some site"
    by (simp add: getProject_def db_two_def site_def first_row_def)
  have n: "getProject db_two uuid_site uuid_bia = None"
    by (simp add: getProject_def db_two_def site_def uuid_ana_def uuid_bia_def)
  show ?thesis
    using c updateProject_frame [OF c, of uuid_site uuid_ana rename_site 3000]
      updateProject_frame [OF c, of uuid_site uuid_bia rename_site 3000]
    by (simp add: g n rename_site_def Let_def) (simp add: db_two_def site_def)
qed

text \<open>
  Claim C6. For a project owned by the requester, the first DELETE on its id answers 204
  with no body and removes the project; a second DELETE on the same id answers 404 and
  changes nothing. At the store, the first call returns true and the second false.
\<close>

theorem delete_twice:
  assumes "p \<in> set (projects d)" and "userId p = claim_userId u"
    and "params_id q = project_id p"
    and "authenticateToken x (authorization q) (js_now e1) = Next u"
    and "authenticateToken x (authorization q) (js_now e2) = Next u"
  shows "fst (handle x e1 DELETE_project q d) = \<lparr>res_status = 204, res_body = None\<rparr>
    \<and> (let d1 = snd (handle x e1 DELETE_project q d)
       in p \<notin> set (projects d1) \<and> getProject d1 (project_id p) (userId p) = None
          \<and> users d1 = users d
          \<and> handle x e2 DELETE_project q d1 = (json_message 404 msg_projeto_nao_encontrado, d1))
    \<and> fst (deleteProject (project_id p) (userId p) d) = True
    \<and> fst (deleteProject (project_id p) (userId p)
             (snd (deleteProject (project_id p) (userId p) d))) = False"
proof -
  let ?d1 = "d\<lparr>projects := filter (\<lambda>r. \<not> (project_id r = project_id p \<and> userId r = userId p))
                               (projects d)\<rparr>"
  have first: "deleteProject (project_id p) (userId p) d = (True, ?d1)"
    by (rule deleteProject_hit [OF assms(1)])
  have gone: "filter (\<lambda>r. project_id r = project_id p \<and> userId r = userId p) (projects ?d1) = []"
    by (simp add: hit_after_delete)
  have second: "deleteProject (project_id p) (userId p) ?d1 = (False, ?d1)"
    by (rule deleteProject_no_hit [OF gone])
  have h1: "handle x e1 DELETE_project q d = (\<lparr>res_status = 204, res_body = None\<rparr>, ?d1)"
    using assms(2,3,4) first by (simp add: protected_def delete_project_def)
  have h2: "handle x e2 DELETE_project q ?d1 = (json_message 404 msg_projeto_nao_encontrado, ?d1)"
    using assms(2,3,5) second by (simp add: protected_def delete_project_def)
  have absent: "p \<notin> set (projects ?d1)" by simp
  have none: "getProject ?d1 (project_id p) (userId p) = None"
    using gone by (simp add: getProject_def)
  show ?thesis
    unfolding h1 first second Let_def fst_conv snd_conv
    using absent none h2 by simp
qed

theorem delete_twice_witness:
  "site \<in> set (projects db_site) \<and> userId site = claim_userId claims_ana
   \<and> params_id delete_site = project_id site
   \<and> authenticateToken example_ext (authorization delete_site) (js_now env_later) = Next claims_ana
   \<and> handle example_ext env_later DELETE_project delete_site db_site
       = (\<lparr>res_status = 204, res_body = None\<rparr>, db_ana)
   \<and> handle example_ext env_later DELETE_project delete_site db_ana
       = (json_message 404 msg_projeto_nao_encontrado, db_ana)"
proof -
  have a1: "site \<in> set (projects db_site)" by (simp add: db_site_eq)
  have a2: "userId site = claim_userId claims_ana" by (simp add: site_def claims_ana_def)
  have a3: "params_id delete_site = project_id site" by (simp add: delete_site_def site_def)
  have a4: "authenticateToken example_ext (authorization delete_site) (js_now env_later)
              = Next claims_ana"
    by (rule auth_delete_site)
  have d1: "snd (handle example_ext env_later DELETE_project delete_site db_site) = db_ana"
    using a2 a3 a4
    by (simp add: protected_def delete_project_def deleteProject_def db_site_eq db_ana_eq
          Let_def site_def claims_ana_def)
  show ?thesis
    using a1 a2 a3 a4 d1 delete_twice [OF a1 a2 a3 a4 a4]
    by (simp add: Let_def prod_eq_iff)
qed

text \<open>
  Claim C7. On a protected route: without a token in the authorization header the answer
  is 401 and the handler does not run (the result does not depend on it and the database
  is unchanged; likewise 403 for a token that fails verification); otherwise the verified
  claims are what the handler runs with. The token is the second space-separated piece of
  the header, so \<^verbatim>\<open>Bearer t\<close> carries \<open>t\<close>.
\<close>

theorem authenticateToken_gate:
  "(header_token (authorization q) = None \<or> header_token (authorization q) = Some []
      \<longrightarrow> protected x e q h d = (json_message 401 msg_token_requerido, d))
   \<and> (\<forall>t. header_token (authorization q) = Some t \<and> t \<noteq> []
          \<and> jwt_verify x t (JWT_SECRET (process_env_JWT_SECRET x)) (js_now e) = None
        \<longrightarrow> protected x e q h d = (json_message 403 msg_token_invalido, d))
   \<and> (\<forall>t u. header_token (authorization q) = Some t \<and> t \<noteq> []
          \<and> jwt_verify x t (JWT_SECRET (process_env_JWT_SECRET x)) (js_now e) = Some u
        \<longrightarrow> authenticateToken x (authorization q) (js_now e) = Next u
            \<and> protected x e q h d = h u d)
   \<and> header_token None = None
   \<and> (\<forall>t. CHR '' '' \<notin> set t \<longrightarrow> header_token (Some (''Bearer '' @ t)) = Some t)"
proof -
  have "header_token None = None" by (simp add: header_token_def)
  then show ?thesis
    by (auto simp: protected_def authenticateToken_def header_token_Bearer [simplified])
qed

theorem authenticateToken_gate_witness:
  "header_token (authorization no_header) = None
   \<and> protected example_ext env_later no_header get_projects db_site
       = (json_message 401 msg_token_requerido, db_site)
   \<and> header_token (authorization bad_token) = Some ''abc.def.ghi''
   \<and> jwt_verify example_ext ''abc.def.ghi'' (JWT_SECRET (process_env_JWT_SECRET example_ext))
        (js_now env_later) = None
   \<and> protected example_ext env_later bad_token get_projects db_site
       = (json_message 403 msg_token_invalido, db_site)
   \<and> header_token (authorization delete_site) = Some token_ana
   \<and> jwt_verify example_ext token_ana (JWT_SECRET (process_env_JWT_SECRET example_ext))
        (js_now env_later) = Some claims_ana
   \<and> protected example_ext env_later delete_site get_projects db_site
       = get_projects claims_ana db_site"
proof -
  have a1: "header_token (authorization no_header) = None"
    by (simp add: no_header_def header_token_def)
  have b1: "header_token (authorization bad_token) = Some ''abc.def.ghi''"
    by (simp add: bad_token_def header_token_def)
  have b2: "jwt_verify example_ext ''abc.def.ghi''
       (JWT_SECRET (process_env_JWT_SECRET example_ext)) (js_now env_later) = None"
    by (simp add: example_ext_simps)
  have c1: "header_token (authorization delete_site) = Some token_ana"
    by (simp add: delete_site_def header_token_def token_ana_def uuid_ana_def)
  have c2: "jwt_verify example_ext token_ana
       (JWT_SECRET (process_env_JWT_SECRET example_ext)) (js_now env_later) = Some claims_ana"
    by (simp add: example_ext_simps token_ana_def uuid_ana_def JWT_SECRET_def claims_ana_def)
  have c3: "token_ana \<noteq> []" by (simp add: token_ana_def)
  show ?thesis
    using a1 b1 b2 c1 c2 c3
      authenticateToken_gate [of no_header example_ext env_later get_projects db_site]
      authenticateToken_gate [of bad_token example_ext env_later get_projects db_site]
      authenticateToken_gate [of delete_site example_ext env_later get_projects db_site]
    by simp
qed

text \<open>
  Claim C3, amended. For every login request that passes the login schema, an e-mail that
  matches no stored user and a stored user whose digest rejects the password both give
  status 401 with the same message and leave the database unchanged. For every login
  request at all, the response in the first case equals the response in the second (a
  request that fails the schema is answered 400 in both, before the store is read).
\<close>

theorem login_failures_uniform:
  "(\<forall>v. loginSchema_parse x (body q) = Inr v \<and> getUserByEmail d (ld_email v) = None
        \<longrightarrow> post_auth_login x e q d = (json_message 401 msg_credenciais, d))
   \<and> (\<forall>v u. loginSchema_parse x (body q) = Inr v \<and> getUserByEmail d (ld_email v) = Some u
          \<and> \<not> bcrypt_compare x (ld_password v) (password u)
        \<longrightarrow> post_auth_login x e q d = (json_message 401 msg_credenciais, d))
   \<and> (\<forall>em pw u d1 d2 e1 e2.
          body q ''email'' = Str em \<and> body q ''password'' = Str pw
          \<and> getUserByEmail d1 em = None
          \<and> getUserByEmail d2 em = Some u \<and> \<not> bcrypt_compare x pw (password u)
        \<longrightarrow> fst (post_auth_login x e1 q d1) = fst (post_auth_login x e2 q d2))
   \<and> (\<forall>f. loginSchema_parse x (body q) = Inl f
        \<longrightarrow> res_status (fst (post_auth_login x e q d)) = 400
            \<and> snd (post_auth_login x e q d) = d)"
proof (intro conjI allI impI)
  fix v assume "loginSchema_parse x (body q) = Inr v \<and> getUserByEmail d (ld_email v) = None"
  then show "post_auth_login x e q d = (json_message 401 msg_credenciais, d)"
    by (simp add: post_auth_login_def)
next
  fix v u
  assume "loginSchema_parse x (body q) = Inr v \<and> getUserByEmail d (ld_email v) = Some u
          \<and> \<not> bcrypt_compare x (ld_password v) (password u)"
  then show "post_auth_login x e q d = (json_message 401 msg_credenciais, d)"
    by (simp add: post_auth_login_def)
next
  fix em pw u d1 d2 e1 e2
  assume a: "body q ''email'' = Str em \<and> body q ''password'' = Str pw
          \<and> getUserByEmail d1 em = None
          \<and> getUserByEmail d2 em = Some u \<and> \<not> bcrypt_compare x pw (password u)"
  show "fst (post_auth_login x e1 q d1) = fst (post_auth_login x e2 q d2)"
  proof (cases "loginSchema_parse x (body q)")
    case (Inl f)
    then show ?thesis by (simp add: post_auth_login_def)
  next
    case (Inr v)
    from loginSchema_parse_fields [OF Inr] a
    have "ld_email v = em" "ld_password v = pw" by simp_all
    with a Inr show ?thesis by (simp add: post_auth_login_def)
  qed
next
  fix f assume "loginSchema_parse x (body q) = Inl f"
  from login_invalid [OF this, of e d]
  show "res_status (fst (post_auth_login x e q d)) = 400"
    by (auto simp: json_message_def)
next
  fix f assume "loginSchema_parse x (body q) = Inl f"
  from login_invalid [OF this, of e d]
  show "snd (post_auth_login x e q d) = d"
    by auto
qed

text \<open>
  The claim as first stated (401 for every request with an unknown e-mail or a wrong
  password) fails for a request that the schema rejects: a password of three characters is
  answered 400, whether the e-mail is unknown or known, under either copy of the schema.
\<close>

theorem login_status_counterexample:
  "body login_ghost ''email'' = Str ''ghost@x.com''
   \<and> getUserByEmail db_ana ''ghost@x.com'' = None
   \<and> post_auth_login example_ext env_later login_ghost db_ana
       = (json_message 400 msg_senha_curta, db_ana)
   \<and> post_auth_login example_ext_000 env_later login_ghost db_ana
       = (json_message 400 msg_senha_curta, db_ana)
   \<and> body login_ana_short ''email'' = Str ''ana@x.com''
   \<and> body login_ana_short ''password'' = Str ''abc''
   \<and> getUserByEmail db_ana ''ana@x.com'' = Some ana
   \<and> \<not> bcrypt_compare example_ext ''abc'' (password ana)
   \<and> post_auth_login example_ext env_later login_ana_short db_ana
       = (json_message 400 msg_senha_curta, db_ana)
   \<and> post_auth_login example_ext_000 env_later login_ana_short db_ana
       = (json_message 400 msg_senha_curta, db_ana)
   \<and> res_status (json_message 400 msg_senha_curta) \<noteq> 401"
  by (simp add: post_auth_login_def loginSchema_parse_ghost loginSchema_parse_ana_short
        loginSchema_parse_ghost_000 loginSchema_parse_ana_short_000
        on_parse_error_def issue_message_def json_message_def)
    (simp add: login_ghost_def login_ana_short_def body_of_def getUserByEmail_def db_ana_eq
        ana_def first_row_def example_ext_simps)

theorem login_failures_uniform_witness:
  "loginSchema_parse example_ext (body login_ana_wrong)
      = Inr \<lparr>ld_email = ''ana@x.com'', ld_password = ''secret2''\<rparr>
   \<and> getUserByEmail empty_db ''ana@x.com'' = None
   \<and> post_auth_login example_ext env_later login_ana_wrong empty_db
       = (json_message 401 msg_credenciais, empty_db)
   \<and> getUserByEmail db_ana ''ana@x.com'' = Some ana
   \<and> \<not> bcrypt_compare example_ext ''secret2'' (password ana)
   \<and> post_auth_login example_ext env_later login_ana_wrong db_ana
       = (json_message 401 msg_credenciais, db_ana)
   \<and> fst (post_auth_login example_ext env_ana login_ana_wrong empty_db)
       = fst (post_auth_login example_ext env_later login_ana_wrong db_ana)"
proof -
  have p: "loginSchema_parse example_ext (body login_ana_wrong)
      = Inr \<lparr>ld_email = ''ana@x.com'', ld_password = ''secret2''\<rparr>"
    by (rule loginSchema_parse_ana_wrong)
  have n: "getUserByEmail empty_db ''ana@x.com'' = None"
    by (simp add: getUserByEmail_def empty_db_def)
  have s: "getUserByEmail db_ana ''ana@x.com'' = Some ana"
    by (simp add: getUserByEmail_def db_ana_eq ana_def first_row_def)
  have w: "\<not> bcrypt_compare example_ext ''secret2'' (password ana)"
    by (simp add: example_ext_simps ana_def)
  have b: "body login_ana_wrong ''email'' = Str ''ana@x.com''"
      "body login_ana_wrong ''password'' = Str ''secret2''"
    by (simp_all add: login_ana_wrong_def body_of_def)
  note t1 = login_failures_uniform [of example_ext login_ana_wrong empty_db env_later]
  note t2 = login_failures_uniform [of example_ext login_ana_wrong db_ana env_later]
  from t1 p n have r1: "post_auth_login example_ext env_later login_ana_wrong empty_db
       = (json_message 401 msg_credenciais, empty_db)"
    by simp
  from t2 p s w have r2: "post_auth_login example_ext env_later login_ana_wrong db_ana
       = (json_message 401 msg_credenciais, db_ana)"
    by simp
  from t1 b n s w have r3: "fst (post_auth_login example_ext env_ana login_ana_wrong empty_db)
       = fst (post_auth_login example_ext env_later login_ana_wrong db_ana)"
    by blast
  show ?thesis using p n s w r1 r2 r3 by simp
qed

text \<open>
  Claim C4, amended. If a registration succeeds, then any later registration request with
  the same e-mail, whatever requests came in between, fails with status 400 and leaves
  the database unchanged; when that later request passes the registration schema (of the
  copy in use) the message is the duplicate-e-mail message. The user store rejects the
  insertion of a row with that e-mail.
\<close>

theorem register_twice:
  assumes "post_auth_register x e1 q1 d = (r1, d1)" and "res_status r1 = 201"
    and "runs x d1 d2"
    and "body q2 ''email'' = body q1 ''email''"
  shows "res_status (fst (post_auth_register x e2 q2 d2)) = 400
    \<and> snd (post_auth_register x e2 q2 d2) = d2
    \<and> (\<forall>v. registerSchema_parse x (body q2) = Inr v
          \<longrightarrow> fst (post_auth_register x e2 q2 d2) = json_message 400 msg_email_em_uso)
    \<and> (\<forall>iu new_id t. body q1 ''email'' = Str (iu_email iu)
          \<longrightarrow> createUser iu new_id t d2 = Inl UniqueViolation)"
proof -
  from register_created [OF assms(1,2)] obtain v u
    where v: "registerSchema_parse x (body q1) = Inr v" and u: "email u = rd_email v"
      and d1: "users d1 = users d @ [u]"
    by blast
  from runs_users_grow [OF assms(3)] obtain more where "users d2 = users d1 @ more" by blast
  with d1 u have stored: "rd_email v \<in> email ` set (users d2)" by force
  have em: "body q1 ''email'' = Str (rd_email v)" by (rule registerSchema_parse_email [OF v])
  have valid: "fst (post_auth_register x e2 q2 d2) = json_message 400 msg_email_em_uso
      \<and> snd (post_auth_register x e2 q2 d2) = d2"
    if "registerSchema_parse x (body q2) = Inr v2" for v2
  proof -
    from registerSchema_parse_email [OF that] assms(4) em have "rd_email v2 = rd_email v"
      by simp
    with stored have "getUserByEmail d2 (rd_email v2) \<noteq> None"
      by (simp add: getUserByEmail_None)
    with that show ?thesis
      by (auto simp: post_auth_register_def)
  qed
  have any: "res_status (fst (post_auth_register x e2 q2 d2)) = 400
      \<and> snd (post_auth_register x e2 q2 d2) = d2"
  proof (cases "registerSchema_parse x (body q2)")
    case (Inl f)
    from register_invalid [OF Inl, of e2 d2] show ?thesis
      by (auto simp: json_message_def)
  next
    case (Inr v2)
    from valid [OF Inr] show ?thesis by (simp add: json_message_def)
  qed
  have store: "createUser iu new_id t d2 = Inl UniqueViolation"
    if "body q1 ''email'' = Str (iu_email iu)" for iu new_id t
  proof -
    from that em have "iu_email iu = rd_email v" by simp
    with stored show ?thesis by (simp add: createUser_def)
  qed
  from valid any store show ?thesis by blast
qed

text \<open>
  The claim as first stated (the duplicate-e-mail message for every second request) fails
  when the second request does not pass the schema: with a password of three characters it
  is answered 400 with the message about the password length, under either copy of the
  schema.
\<close>

theorem register_twice_counterexample:
  "post_auth_register example_ext env_ana register_ana empty_db
     = (\<lparr>res_status = 201,
         res_body = Some (JObject [(''token'', JString token_ana),
                                   (''user'', JObject [(''id'', JString uuid_ana),
                                                       (''name'', JString ''Ana''),
                                                       (''email'', JString ''ana@x.com'')])])\<rparr>,
        db_ana)
   \<and> post_auth_register example_ext_000 env_ana register_ana empty_db
     = (\<lparr>res_status = 201,
         res_body = Some (JObject [(''token'', JString token_ana),
                                   (''user'', JObject [(''id'', JString uuid_ana),
                                                       (''name'', JString ''Ana''),
                                                       (''email'', JString ''ana@x.com'')])])\<rparr>,
        db_ana)
   \<and> body register_ana_short ''email'' = body register_ana ''email''
   \<and> post_auth_register example_ext env_later register_ana_short db_ana
       = (json_message 400 msg_senha_curta, db_ana)
   \<and> post_auth_register example_ext_000 env_later register_ana_short db_ana
       = (json_message 400 msg_senha_curta, db_ana)
   \<and> json_message 400 msg_senha_curta \<noteq> json_message 400 msg_email_em_uso"
proof (intro conjI)
  show "post_auth_register example_ext env_ana register_ana empty_db
     = (\<lparr>res_status = 201,
         res_body = Some (JObject [(''token'', JString token_ana),
                                   (''user'', JObject [(''id'', JString uuid_ana),
                                                       (''name'', JString ''Ana''),
                                                       (''email'', JString ''ana@x.com'')])])\<rparr>,
        db_ana)"
    by (simp add: register_ana_run db_ana_eq)
  show "post_auth_register example_ext_000 env_ana register_ana empty_db
     = (\<lparr>res_status = 201,
         res_body = Some (JObject [(''token'', JString token_ana),
                                   (''user'', JObject [(''id'', JString uuid_ana),
                                                       (''name'', JString ''Ana''),
                                                       (''email'', JString ''ana@x.com'')])])\<rparr>,
        db_ana)"
    by (simp add: register_ana_run_000 db_ana_eq)
  show "body register_ana_short ''email'' = body register_ana ''email''"
    by (simp add: register_ana_short_def register_ana_def body_ana_def body_of_def)
  show "post_auth_register example_ext env_later register_ana_short db_ana
       = (json_message 400 msg_senha_curta, db_ana)"
    by (simp add: post_auth_register_def registerSchema_parse_ana_short on_parse_error_def
          issue_message_def)
  show "post_auth_register example_ext_000 env_later register_ana_short db_ana
       = (json_message 400 msg_senha_curta, db_ana)"
    by (simp add: post_auth_register_def registerSchema_parse_ana_short_000 on_parse_error_def
          issue_message_def)
  show "json_message 400 msg_senha_curta \<noteq> json_message 400 msg_email_em_uso"
    by (simp add: json_message_def msg_senha_curta_def msg_email_em_uso_def)
qed

theorem register_twice_witness:
  "post_auth_register example_ext env_ana register_ana empty_db
     = (\<lparr>res_status = 201,
         res_body = Some (JObject [(''token'', JString token_ana),
                                   (''user'', JObject [(''id'', JString uuid_ana),
                                                       (''name'', JString ''Ana''),
                                                       (''email'', JString ''ana@x.com'')])])\<rparr>,
        db_ana)
   \<and> runs example_ext db_ana db_site
   \<and> body register_ana ''email'' = Str ''ana@x.com''
   \<and> registerSchema_parse example_ext (body register_ana)
       = Inr \<lparr>rd_name = ''Ana'', rd_email = ''ana@x.com'', rd_password = ''secret1'',
              rd_confirmPassword = ''secret1''\<rparr>
   \<and> post_auth_register example_ext env_later register_ana db_site
       = (json_message 400 msg_email_em_uso, db_site)
   \<and> post_auth_register example_ext env_later register_ana_short db_site
       = (json_message 400 msg_senha_curta, db_site)
   \<and> createUser \<lparr>iu_name = ''Ana'', iu_email = ''ana@x.com'', iu_password = ''s3$secret1''\<rparr>
        uuid_bia 3000 db_site = Inl UniqueViolation"
proof -
  let ?r1 = "\<lparr>res_status = 201,
         res_body = Some (JObject [(''token'', JString token_ana),
                                   (''user'', JObject [(''id'', JString uuid_ana),
                                                       (''name'', JString ''Ana''),
                                                       (''email'', JString ''ana@x.com'')])])\<rparr>"
  have a1: "post_auth_register example_ext env_ana register_ana empty_db = (?r1, db_ana)"
    by (simp add: register_ana_run db_ana_eq)
  have a2: "res_status ?r1 = 201" by simp
  have a3: "runs example_ext db_ana db_site"
    unfolding db_site_def by (rule runs.later [OF runs.here])
  have a4: "body register_ana ''email'' = body register_ana ''email''" by simp
  have a5: "body register_ana_short ''email'' = body register_ana ''email''"
    by (simp add: register_ana_short_def register_ana_def body_ana_def body_of_def)
  have em: "body register_ana ''email'' = Str ''ana@x.com''"
    by (simp add: register_ana_def body_ana_def body_of_def)
  have p: "registerSchema_parse example_ext (body register_ana)
       = Inr \<lparr>rd_name = ''Ana'', rd_email = ''ana@x.com'', rd_password = ''secret1'',
              rd_confirmPassword = ''secret1''\<rparr>"
    by (simp add: register_ana_def registerSchema_parse_ana)
  note t1 = register_twice [OF a1 a2 a3 a4, of env_later]
  note t2 = register_twice [OF a1 a2 a3 a5, of env_later]
  from t1 p have r1: "post_auth_register example_ext env_later register_ana db_site
       = (json_message 400 msg_email_em_uso, db_site)"
    by (simp add: prod_eq_iff)
  from t2 have r2: "snd (post_auth_register example_ext env_later register_ana_short db_site)
       = db_site"
    by simp
  have r3: "fst (post_auth_register example_ext env_later register_ana_short db_site)
       = json_message 400 msg_senha_curta"
    by (simp add: post_auth_register_def registerSchema_parse_ana_short on_parse_error_def
          issue_message_def)
  from t1 em have r4: "createUser \<lparr>iu_name = ''Ana'', iu_email = ''ana@x.com'',
        iu_password = ''s3$secret1''\<rparr> uuid_bia 3000 db_site = Inl UniqueViolation"
    by simp
  show ?thesis using a1 a3 em p r1 r2 r3 r4 by (simp add: prod_eq_iff)
qed





end
